theory Spec2Isabelle
  imports Complex_Main
begin

section \<open>Strings\<close>

text \<open>
  A JavaScript string is modelled as a \<^typ>\<open>string\<close> (a list of \<^typ>\<open>char\<close>), one
  \<^typ>\<open>char\<close> per code unit, so \<open>length\<close> is the source's \<open>.length\<close> and list positions
  are the source's character offsets. Isabelle characters are 8 bits wide; the white space
  of \<open>String.prototype.trim\<close> and of the regular-expression classes \<open>\s\<close>/\<open>\S\<close> that
  lies in that range is TAB, LF, VT, FF, CR, SPACE and NBSP.
\<close>

definition isSpace :: "char \<Rightarrow> bool" where
  "isSpace c = (c \<in> set [CHR 0x09, CHR 0x0A, CHR 0x0B, CHR 0x0C, CHR 0x0D, CHR 0x20, CHR 0xA0])"

text \<open>\<open>str.trim()\<close>: white space is removed from both ends.\<close>

definition trim :: "string \<Rightarrow> string" where
  "trim s = rev (dropWhile isSpace (rev (dropWhile isSpace s)))"

text \<open>
  The \<open>i\<close> flag of the regular expressions below only concerns the ASCII letters of their
  literal prefixes; \<open>lowerAscii\<close> folds \<open>A\<close>..\<open>Z\<close> to \<open>a\<close>..\<open>z\<close> and leaves every other
  character alone.
\<close>

definition lowerAscii :: "char \<Rightarrow> char" where
  "lowerAscii c =
     (case map_of (zip ''ABCDEFGHIJKLMNOPQRSTUVWXYZ'' ''abcdefghijklmnopqrstuvwxyz'') c of
        Some l \<Rightarrow> l
      | None \<Rightarrow> c)"

text \<open>\<open>startsWithCI p s\<close>: the (lower-case) literal \<open>p\<close> matches at the start of \<open>s\<close>,
  ignoring case.\<close>

definition startsWithCI :: "string \<Rightarrow> string \<Rightarrow> bool" where
  "startsWithCI p s = (map lowerAscii (take (length p) s) = p)"

text \<open>\<open>\S+$\<close>: one or more characters, none of them white space, up to the end of input.\<close>

definition nonSpaceRun :: "string \<Rightarrow> bool" where
  "nonSpaceRun s = (s \<noteq> [] \<and> list_all (\<lambda>c. \<not> isSpace c) s)"

section \<open>URL classifier\<close>

text \<open>
  Source: \<open>src/unnamed/part_002\<close>, \<open>LinkEditModal.isUrl\<close> (lines 605-609, and the identical
  local helper at lines 780-784; also \<open>src/main.js\<close> lines 166-175):
  \<^verbatim>\<open>
  isUrl(str) {
      if (!str) return false;
      const trimmed = str.trim();
      return /^https?:\/\/\S+$|^www\.\S+$/i.test(trimmed);
  }
  \<close>
\<close>

definition isUrlPattern :: "string \<Rightarrow> bool" where
  "isUrlPattern t =
     ((startsWithCI ''http://'' t \<and> nonSpaceRun (drop 7 t)) \<or>
      (startsWithCI ''https://'' t \<and> nonSpaceRun (drop 8 t)) \<or>
      (startsWithCI ''www.'' t \<and> nonSpaceRun (drop 4 t)))"

definition isUrl :: "string \<Rightarrow> bool" where
  "isUrl str = (if str = [] then False else isUrlPattern (trim str))"

text \<open>
  Source: \<open>src/unnamed/part_002\<close>, \<open>LinkEditModal.isAlmostUrl\<close> (lines 611-615):
  \<^verbatim>\<open>
  isAlmostUrl(str) {
      if (!str) return false;
      const trimmed = str.trim();
      return /^htp:\/\/|^htps:\/\/|^http:\/[^\/]|^https\/\/|^www\.[a-zA-Z0-9-]+$/i.test(trimmed);
  }
  \<close>
\<close>

definition isLabelChar :: "char \<Rightarrow> bool" where
  "isLabelChar c =
     (c \<in> set ''abcdefghijklmnopqrstuvwxyzABCDEFGHIJKLMNOPQRSTUVWXYZ0123456789-'')"

definition isAlmostUrlPattern :: "string \<Rightarrow> bool" where
  "isAlmostUrlPattern t =
     (startsWithCI ''htp://'' t \<or>
      startsWithCI ''htps://'' t \<or>
      (startsWithCI ''http:/'' t \<and>
         (case drop 6 t of [] \<Rightarrow> False | c # _ \<Rightarrow> c \<noteq> CHR ''/'')) \<or>
      startsWithCI ''https//'' t \<or>
      (startsWithCI ''www.'' t \<and>
         (case drop 4 t of [] \<Rightarrow> False | c # cs \<Rightarrow> list_all isLabelChar (c # cs))))"

definition isAlmostUrl :: "string \<Rightarrow> bool" where
  "isAlmostUrl str = (if str = [] then False else isAlmostUrlPattern (trim str))"

text \<open>
  Source: \<open>src/unnamed/part_002\<close>, the local helper \<open>normalizeUrl\<close> (lines 786-799):
  \<^verbatim>\<open>
  const normalizeUrl = (str) => {
      if (!str) return str;
      const trimmed = str.trim();
      if (/^https?:\/\//i.test(trimmed)) { return trimmed; }
      if (/^www\./i.test(trimmed)) { return 'https://' + trimmed; }
      return trimmed;
  };
  \<close>
\<close>

definition normalizeUrl :: "string \<Rightarrow> string" where
  "normalizeUrl str =
     (if str = [] then str
      else
        (let trimmed = trim str in
         if startsWithCI ''http://'' trimmed \<or> startsWithCI ''https://'' trimmed then trimmed
         else if startsWithCI ''www.'' trimmed then ''https://'' @ trimmed
         else trimmed))"

section \<open>Data model\<close>

text \<open>
  \<open>LinkInfo\<close> is imported by \<open>src/src/linkOperations.ts\<close> from \<open>./types\<close>; its four fields
  are the ones the source builds (\<open>linkOperations.ts\<close> lines 123-128). \<open>LinkAtCursor\<close> is
  imported from \<open>./utils\<close>; its fields are the ones \<open>createEditOperation\<close> reads (lines
  89-99). Offsets and line numbers are editor positions, hence natural numbers. Record
  selectors are global in Isabelle, so the fields of \<open>LinkOperation\<close> that repeat those of
  \<open>LinkAtCursor\<close> carry the prefix \<open>op_\<close>, and the three fields that \<open>EditorContext\<close> and
  \<open>SkipLinkContext\<close> share are declared once, in \<open>CursorContext\<close>, which both extend.
\<close>

record LinkInfo =
  "text" :: string
  destination :: string
  isWiki :: bool
  isEmbed :: bool

record LinkAtCursor =
  link :: LinkInfo
  start :: nat
  "end" :: nat
  enteredFromLeft :: bool

record Position =
  line :: nat
  ch :: nat

record SkipLinkResult =
  position :: Position
  skipped :: bool

record CursorContext =
  cursorLine :: nat
  cursorCh :: nat
  lineText :: string

record SkipLinkContext = CursorContext +
  lineCount :: nat
  prevLineLength :: nat

section \<open>Cursor link locator\<close>

text \<open>
  Source: \<open>src/unnamed/part_002\<close>, the link detection that opens the \<open>edit-link\<close> command
  (lines 735-766; the same in \<open>src/main.js\<close>, lines 225-256):
  \<^verbatim>\<open>
  const mdRegex = /\[([^\]]+)\]\(([^)]+)\)/g;
  const wikiRegex = /\[\[([^\]|]+)(?:\|([^\]]+))?\]\]/g;
  let match;
  let link = null;
  let start = 0;
  let end = 0;
  let enteredFromLeft = true;
  // 1. Check Markdown
  while ((match = mdRegex.exec(line)) !== null) {
      start = match.index;
      end = match.index + match[0].length;
      if (cursor.ch >= start && cursor.ch <= end) {
          link = { text: match[1], destination: match[2], isWiki: false };
          enteredFromLeft = cursor.ch <= start + 1;
          break;
      }
  }
  // 2. Check Wiki
  if (!link) {
      while ((match = wikiRegex.exec(line)) !== null) {
          start = match.index;
          end = match.index + match[0].length;
          if (cursor.ch >= start && cursor.ch <= end) {
              link = { destination: match[1], text: match[2] ?? match[1], isWiki: true };
              enteredFromLeft = cursor.ch <= start + 2;
              break;
          }
      }
  }
  \<close>
  \<open>src/src/linkOperations.ts\<close> imports a function \<open>detectLinkAtCursor\<close> from \<open>./utils\<close>, a file
  that is not among the sources; the detection that is among the sources is the code
  above, and it is the one given to the operations below under that name. The tests of
  \<open>src/tests\<close> run the operations with the function of \<open>./utils\<close>, which, unlike the code
  above, reports embedded links (\<open>linkOperations.test.ts\<close>, lines 41-61).
\<close>

text \<open>
  What \<open>exec\<close> returns for a match: \<open>match[0]\<close>, the matched text, and the two captured
  groups \<open>match[1]\<close> and \<open>match[2]\<close>. The second group of \<open>wikiRegex\<close> is optional, so there
  \<open>match[2]\<close> may be undefined.
\<close>

record 'g RegExpMatch =
  match0 :: string
  match1 :: string
  match2 :: 'g

text \<open>
  \<open>mdRegex\<close> matched at the head of \<open>s\<close>: \<open>[\<close>, one or more characters other than \<open>]\<close>, \<open>](\<close>,
  one or more characters other than \<open>)\<close>, and \<open>)\<close>. The greedy class \<open>[^\]]+\<close> can only stop
  in front of the first \<open>]\<close> and \<open>[^)]+\<close> in front of the first \<open>)\<close>, so the match, when there
  is one, is unique.
\<close>

definition mdRegex :: "string \<Rightarrow> string RegExpMatch option" where
  "mdRegex s =
     (let txt = takeWhile (\<lambda>c. c \<noteq> CHR '']'') (drop 1 s);
          r2 = dropWhile (\<lambda>c. c \<noteq> CHR '']'') (drop 1 s);
          dest = takeWhile (\<lambda>c. c \<noteq> CHR '')'') (drop 2 r2);
          r3 = dropWhile (\<lambda>c. c \<noteq> CHR '')'') (drop 2 r2)
      in if take 1 s = ''['' \<and> txt \<noteq> [] \<and> take 2 r2 = '']('' \<and> dest \<noteq> [] \<and>
            take 1 r3 = '')''
         then Some \<lparr>match0 = ''['' @ txt @ '']('' @ dest @ '')'', match1 = txt,
                    match2 = dest\<rparr>
         else None)"

text \<open>
  \<open>wikiRegex\<close> matched at the head of \<open>s\<close>: \<open>[[\<close>, one or more characters other than \<open>]\<close> and
  \<open>|\<close>, optionally \<open>|\<close> with one or more characters other than \<open>]\<close>, and \<open>]]\<close>. When the
  optional group cannot be completed, the pattern can only go on with \<open>]]\<close> in front of
  the \<open>|\<close>, which fails.
\<close>

definition wikiRegex :: "string \<Rightarrow> string option RegExpMatch option" where
  "wikiRegex s =
     (let dest = takeWhile (\<lambda>c. c \<noteq> CHR '']'' \<and> c \<noteq> CHR ''|'') (drop 2 s);
          r2 = dropWhile (\<lambda>c. c \<noteq> CHR '']'' \<and> c \<noteq> CHR ''|'') (drop 2 s);
          disp = takeWhile (\<lambda>c. c \<noteq> CHR '']'') (drop 1 r2);
          r3 = dropWhile (\<lambda>c. c \<noteq> CHR '']'') (drop 1 r2)
      in if take 2 s \<noteq> ''[['' \<or> dest = [] then None
         else if take 1 r2 = ''|'' \<and> disp \<noteq> [] \<and> take 2 r3 = '']]''
         then Some \<lparr>match0 = ''[['' @ dest @ ''|'' @ disp @ '']]'', match1 = dest,
                    match2 = Some disp\<rparr>
         else if take 2 r2 = '']]''
         then Some \<lparr>match0 = ''[['' @ dest @ '']]'', match1 = dest, match2 = None\<rparr>
         else None)"

lemma mdRegex_len_pos: "mdRegex s = Some m \<Longrightarrow> 0 < length (match0 m)"
  by (auto simp: mdRegex_def Let_def split: if_splits)

lemma wikiRegex_len_pos: "wikiRegex s = Some m \<Longrightarrow> 0 < length (match0 m)"
  by (auto simp: wikiRegex_def Let_def split: if_splits)

text \<open>
  The first loop, over the rest of the line from offset \<open>i\<close> on. A call of \<open>exec\<close> on a
  global pattern looks for the leftmost match at or after \<open>lastIndex\<close> and leaves
  \<open>lastIndex\<close> at the end of that match: the pattern is tried at each offset in turn and,
  after a match that does not contain the cursor, the search resumes at its end. The loop
  stops at the first match whose span \<open>[start, end]\<close> contains \<open>cursor.ch\<close>, both bounds
  included. The object literal has no \<open>isEmbed\<close> property; read from it, the property is
  undefined, which is false in a condition.
\<close>

function checkMarkdown :: "nat \<Rightarrow> nat \<Rightarrow> string \<Rightarrow> LinkAtCursor option" where
  "checkMarkdown c i [] = None"
| "checkMarkdown c i (x # xs) =
     (case mdRegex (x # xs) of
        None \<Rightarrow> checkMarkdown c (i + 1) xs
      | Some m \<Rightarrow>
          if c \<ge> i \<and> c \<le> i + length (match0 m) then
            Some \<lparr>link = \<lparr>text = match1 m, destination = match2 m, isWiki = False,
                           isEmbed = False\<rparr>,
                  start = i, end = i + length (match0 m), enteredFromLeft = (c \<le> i + 1)\<rparr>
          else checkMarkdown c (i + length (match0 m)) (drop (length (match0 m)) (x # xs)))"
  by pat_completeness auto
termination
  by (relation "measure (\<lambda>(c, i, s). length s)") (auto dest: mdRegex_len_pos)

text \<open>The second loop; \<open>match[2] ?? match[1]\<close> is the display text when there is one, else
  the destination.\<close>

function checkWiki :: "nat \<Rightarrow> nat \<Rightarrow> string \<Rightarrow> LinkAtCursor option" where
  "checkWiki c i [] = None"
| "checkWiki c i (x # xs) =
     (case wikiRegex (x # xs) of
        None \<Rightarrow> checkWiki c (i + 1) xs
      | Some m \<Rightarrow>
          if c \<ge> i \<and> c \<le> i + length (match0 m) then
            Some \<lparr>link = \<lparr>text = (case match2 m of Some t \<Rightarrow> t | None \<Rightarrow> match1 m),
                           destination = match1 m, isWiki = True, isEmbed = False\<rparr>,
                  start = i, end = i + length (match0 m), enteredFromLeft = (c \<le> i + 2)\<rparr>
          else checkWiki c (i + length (match0 m)) (drop (length (match0 m)) (x # xs)))"
  by pat_completeness auto
termination
  by (relation "measure (\<lambda>(c, i, s). length s)") (auto dest: wikiRegex_len_pos)

text \<open>
  Both loops start at offset 0 (\<open>lastIndex\<close> of a fresh pattern); the second runs only
  \<open>if (!link)\<close>. The result is the link with its span and \<open>enteredFromLeft\<close>, or null when
  \<open>link\<close> is still null after both.
\<close>

definition detectLinkAtCursor :: "string \<Rightarrow> nat \<Rightarrow> LinkAtCursor option" where
  "detectLinkAtCursor ltxt c =
     (case checkMarkdown c 0 ltxt of
        Some r \<Rightarrow> Some r
      | None \<Rightarrow> checkWiki c 0 ltxt)"

text \<open>
  The words that the loops are compared with: all the non-overlapping matches of a pattern
  in a line, found left to right, each paired with its offset; and a span that contains
  the cursor offset, both bounds included.
\<close>

function markdownMatches :: "nat \<Rightarrow> string \<Rightarrow> (nat \<times> string RegExpMatch) list" where
  "markdownMatches i [] = []"
| "markdownMatches i (x # xs) =
     (case mdRegex (x # xs) of
        None \<Rightarrow> markdownMatches (i + 1) xs
      | Some m \<Rightarrow>
          (i, m) # markdownMatches (i + length (match0 m)) (drop (length (match0 m)) (x # xs)))"
  by pat_completeness auto
termination
  by (relation "measure (\<lambda>(i, s). length s)") (auto dest: mdRegex_len_pos)

function wikiMatches :: "nat \<Rightarrow> string \<Rightarrow> (nat \<times> string option RegExpMatch) list" where
  "wikiMatches i [] = []"
| "wikiMatches i (x # xs) =
     (case wikiRegex (x # xs) of
        None \<Rightarrow> wikiMatches (i + 1) xs
      | Some m \<Rightarrow>
          (i, m) # wikiMatches (i + length (match0 m)) (drop (length (match0 m)) (x # xs)))"
  by pat_completeness auto
termination
  by (relation "measure (\<lambda>(i, s). length s)") (auto dest: wikiRegex_len_pos)

definition spanContains :: "nat \<Rightarrow> nat \<times> 'g RegExpMatch \<Rightarrow> bool" where
  "spanContains c im = (fst im \<le> c \<and> c \<le> fst im + length (match0 (snd im)))"

text \<open>The span \<open>(start, end)\<close> of the link detected at an offset, if any.\<close>

definition linkSpanAt :: "string \<Rightarrow> nat \<Rightarrow> (nat \<times> nat) option" where
  "linkSpanAt ltxt c =
     (case detectLinkAtCursor ltxt c of
        None \<Rightarrow> None
      | Some r \<Rightarrow> Some (start r, end r))"


section \<open>Skip position calculator\<close>

text \<open>
  Source: \<open>src/src/linkOperations.ts\<close>, \<open>determineSkipPosition\<close> (lines 271-343).
  \<^verbatim>\<open>
  const linkCenter = (start + end) / 2;
  const isOnLeftSide = cursorCh <= linkCenter;
  \<close>
  The division is the one of JavaScript numbers, so the centre of a span of odd length
  lies half-way between two offsets; it is taken in the rationals here.
\<close>

definition linkCenter :: "nat \<Rightarrow> nat \<Rightarrow> rat" where
  "linkCenter s e = of_nat (s + e) / 2"

definition isOnLeftSide :: "nat \<Rightarrow> nat \<Rightarrow> nat \<Rightarrow> bool" where
  "isOnLeftSide c s e = (of_nat c \<le> linkCenter s e)"

definition determineSkipPosition :: "SkipLinkContext \<Rightarrow> SkipLinkResult" where
  "determineSkipPosition context =
     (case detectLinkAtCursor (lineText context) (cursorCh context) of
        None \<Rightarrow>
          \<lparr>position = \<lparr>line = cursorLine context, ch = cursorCh context\<rparr>, skipped = False\<rparr>
      | Some existingLink \<Rightarrow>
          (let s = start existingLink;
               e = end existingLink;
               left = isOnLeftSide (cursorCh context) s e;
               cl = cursorLine context;
               len = length (lineText context);
               next = \<lparr>position = \<lparr>line = cl + 1, ch = 0\<rparr>, skipped = True\<rparr>;
               prev = \<lparr>position = \<lparr>line = cl - 1, ch = prevLineLength context\<rparr>,
                       skipped = True\<rparr>
           in
           if s = 0 \<and> e \<ge> len then
             (if left then
                (if cl + 1 < lineCount context then next
                 else if cl > 0 then prev
                 else \<lparr>position = \<lparr>line = cl, ch = (if left then e else 0)\<rparr>, skipped = True\<rparr>)
              else
                (if cl > 0 then prev
                 else if cl + 1 < lineCount context then next
                 else \<lparr>position = \<lparr>line = cl, ch = (if left then e else 0)\<rparr>, skipped = True\<rparr>))
           else if left then
             (if e < len then \<lparr>position = \<lparr>line = cl, ch = e + 1\<rparr>, skipped = True\<rparr>
              else if cl + 1 < lineCount context then next
              else if s > 0 then \<lparr>position = \<lparr>line = cl, ch = s - 1\<rparr>, skipped = True\<rparr>
              else \<lparr>position = \<lparr>line = cl, ch = e\<rparr>, skipped = True\<rparr>)
           else
             (if s > 0 then \<lparr>position = \<lparr>line = cl, ch = s - 1\<rparr>, skipped = True\<rparr>
              else if cl > 0 then prev
              else if e < len then \<lparr>position = \<lparr>line = cl, ch = e + 1\<rparr>, skipped = True\<rparr>
              else \<lparr>position = \<lparr>line = cl, ch = 0\<rparr>, skipped = True\<rparr>)))"

section \<open>URL at the cursor\<close>

text \<open>
  Modelled from the spec: section 4.1 (\<open>urlAtCursor\<close> is imported by
  \<open>src/src/linkOperations.ts\<close> from the absent \<open>./utils\<close>). \<open>urlAtCursor(line, ch)\<close> scans
  the line for substrings matching the \<open>isUrl\<close> grammar (\<open>https?://\S+\<close> or \<open>www\.\S+\<close>,
  ignoring case) and returns the one whose span contains \<open>ch\<close>, both bounds included,
  else null. \<open>matchUrlAt\<close> is that grammar at the head of a string: the length of the
  match, whose run of non-space characters is as long as possible.
\<close>

definition matchUrlAt :: "string \<Rightarrow> nat option" where
  "matchUrlAt s =
     (let p = (if startsWithCI ''http://'' s then 7
               else if startsWithCI ''https://'' s then 8
               else if startsWithCI ''www.'' s then 4
               else 0);
          run = takeWhile (\<lambda>c. \<not> isSpace c) (drop p s)
      in if p = 0 \<or> run = [] then None else Some (p + length run))"

lemma matchUrlAt_len_pos: "matchUrlAt s = Some n \<Longrightarrow> 0 < n"
  by (auto simp: matchUrlAt_def Let_def split: if_splits)

text \<open>Modelled from the spec: section 4.1, the URLs of a line, found left to right, each
  with its offset (scan of the absent \<open>urlAtCursor\<close>).\<close>

function urlMatches :: "nat \<Rightarrow> string \<Rightarrow> (nat \<times> string) list" where
  "urlMatches i [] = []"
| "urlMatches i (x # xs) =
     (case matchUrlAt (x # xs) of
        None \<Rightarrow> urlMatches (i + 1) xs
      | Some n \<Rightarrow> (i, take n (x # xs)) # urlMatches (i + n) (drop n (x # xs)))"
  by pat_completeness auto
termination
  by (relation "measure (\<lambda>(i, s). length s)") (auto dest: matchUrlAt_len_pos)

text \<open>Modelled from the spec: section 4.1, the span of a URL contains \<open>ch\<close>, bounds
  included; \<open>urlAtCursor\<close> (absent \<open>./utils\<close>) returns the first such URL.\<close>

definition urlSpanContains :: "nat \<Rightarrow> nat \<times> string \<Rightarrow> bool" where
  "urlSpanContains c iu = (fst iu \<le> c \<and> c \<le> fst iu + length (snd iu))"

definition urlAtCursor :: "string \<Rightarrow> nat \<Rightarrow> string option" where
  "urlAtCursor ltxt c =
     (case find (urlSpanContains c) (urlMatches 0 ltxt) of
        None \<Rightarrow> None
      | Some (i, u) \<Rightarrow> Some u)"

text \<open>Modelled from the spec: section 4.4, rule 3, "the URL's own span" in the line (the
  range that the absent \<open>determineLinkFromContext\<close> reports); the cursor point itself when
  there is no URL at the cursor.\<close>

definition urlSpanAtCursor :: "string \<Rightarrow> nat \<Rightarrow> nat \<times> nat" where
  "urlSpanAtCursor ltxt c =
     (case find (urlSpanContains c) (urlMatches 0 ltxt) of
        None \<Rightarrow> (c, c)
      | Some (i, u) \<Rightarrow> (i, i + length u))"

section \<open>Link syntax codec\<close>

text \<open>
  The codec functions are exported by \<open>./utils\<close>, which is not among the sources;
  \<open>src/src/LinkEditModal.ts\<close> calls them (lines 130-146, 301).
\<close>

text \<open>
  Modelled from the spec: what a match of one of the two link patterns of the absent
  parse functions yields at the head of a string: whether the opening group starts with
  \<open>!\<close>, the two captured groups, and the length of the whole match.
\<close>

record LinkMatch =
  m_embed :: bool
  m_text :: string
  m_dest :: string
  m_len :: nat

text \<open>Modelled from the spec: the opening \<open>[\<close> "with optional leading \<open>!\<close> for embed" of
  \<open>parseMarkdownLink\<close> (section 4.2, absent \<open>./utils\<close>), the group \<open>(!?\[)\<close> of section
  4.3.\<close>

definition openMarkdown :: "string \<Rightarrow> (bool \<times> string) option" where
  "openMarkdown s =
     (if take 2 s = ''!['' then Some (True, drop 2 s)
      else if take 1 s = ''['' then Some (False, drop 1 s)
      else None)"

text \<open>
  Modelled from the spec: the markdown-link pattern of the absent \<open>./utils\<close>, which
  section 4.3 writes \<open>(!?\[)([^\]]*)\]\(([^)]+)\)\<close> and section 4.2 describes for
  \<open>parseMarkdownLink\<close>, matched at the head of \<open>s\<close>. The greedy class \<open>[^\]]*\<close> can only
  stop in front of the first \<open>]\<close> and \<open>[^)]+\<close> in front of the first \<open>)\<close>, so the match,
  when there is one, is unique.
\<close>

definition matchMarkdownAt :: "string \<Rightarrow> LinkMatch option" where
  "matchMarkdownAt s =
     (case openMarkdown s of
        None \<Rightarrow> None
      | Some (bang, r) \<Rightarrow>
          (let txt = takeWhile (\<lambda>c. c \<noteq> CHR '']'') r;
               r2 = dropWhile (\<lambda>c. c \<noteq> CHR '']'') r;
               dest = takeWhile (\<lambda>c. c \<noteq> CHR '')'') (drop 2 r2);
               r3 = dropWhile (\<lambda>c. c \<noteq> CHR '')'') (drop 2 r2)
           in if take 2 r2 = '']('' \<and> dest \<noteq> [] \<and> take 1 r3 = '')''
              then Some \<lparr>m_embed = bang, m_text = txt, m_dest = dest,
                         m_len = (if bang then 2 else 1) + length txt + 2 + length dest + 1\<rparr>
              else None))"

text \<open>Modelled from the spec: the opening \<open>[[\<close> "optionally preceded by \<open>!\<close>" of
  \<open>parseWikiLink\<close> (section 4.2, absent \<open>./utils\<close>).\<close>

definition openWiki :: "string \<Rightarrow> (bool \<times> string) option" where
  "openWiki s =
     (if take 3 s = ''![['' then Some (True, drop 3 s)
      else if take 2 s = ''[['' then Some (False, drop 2 s)
      else None)"

text \<open>
  Modelled from the spec: the wiki-link pattern of the absent \<open>./utils\<close>, which section
  4.3 abbreviates as \<open>!?\[\[...\]\]\<close> with optional \<open>|display\<close> and section 4.2 describes for
  \<open>parseWikiLink\<close>. The character classes are those of \<open>wikiRegex\<close> above, with the optional
  leading \<open>!\<close> in front: the destination runs up to the first \<open>]\<close> or \<open>|\<close>, the display text
  after a \<open>|\<close> up to the first \<open>]\<close>, and the text defaults to the destination when there is
  no display group.
\<close>

definition matchWikiAt :: "string \<Rightarrow> LinkMatch option" where
  "matchWikiAt s =
     (case openWiki s of
        None \<Rightarrow> None
      | Some (bang, r) \<Rightarrow>
          (let dest = takeWhile (\<lambda>c. c \<noteq> CHR '']'' \<and> c \<noteq> CHR ''|'') r;
               r2 = dropWhile (\<lambda>c. c \<noteq> CHR '']'' \<and> c \<noteq> CHR ''|'') r;
               disp = takeWhile (\<lambda>c. c \<noteq> CHR '']'') (drop 1 r2);
               r3 = dropWhile (\<lambda>c. c \<noteq> CHR '']'') (drop 1 r2);
               opening = (if bang then 3 else 2)
           in if dest = [] then None
              else if take 1 r2 = ''|'' then
                (if disp \<noteq> [] \<and> take 2 r3 = '']]''
                 then Some \<lparr>m_embed = bang, m_text = disp, m_dest = dest,
                            m_len = opening + length dest + 1 + length disp + 2\<rparr>
                 else None)
              else if take 2 r2 = '']]''
              then Some \<lparr>m_embed = bang, m_text = dest, m_dest = dest,
                         m_len = opening + length dest + 2\<rparr>
              else None))"

text \<open>
  Modelled from the spec: section 4.2 (absent \<open>./utils\<close>), \<open>parseMarkdownLink(s)\<close> matches
  \<open>[text](destination)\<close> with an optional leading \<open>!\<close>, trims both fields and returns
  null on structural mismatch; the first \<open>]\<close> closes the text and the destination holds
  no \<open>)\<close>. The whole string has to be the link: the markdown pattern above must
  match all of it. The result is a \<open>LinkInfo\<close>, whose format flag the clipboard parser
  below reports.
\<close>

definition parseMarkdownLink :: "string \<Rightarrow> LinkInfo option" where
  "parseMarkdownLink s =
     (case matchMarkdownAt s of
        None \<Rightarrow> None
      | Some m \<Rightarrow>
          if m_len m = length s
          then Some \<lparr>text = trim (m_text m), destination = trim (m_dest m), isWiki = False,
                     isEmbed = m_embed m\<rparr>
          else None)"

text \<open>
  Modelled from the spec: section 4.2 (absent \<open>./utils\<close>), \<open>parseWikiLink(s)\<close> matches
  \<open>[[\<close>, optionally preceded by \<open>!\<close>, then the destination up to an optional
  \<open>|displayText\<close>, then \<open>]]\<close>; both fields are trimmed, the text defaults to the
  destination when there is no pipe, and the result is null when the string is not a
  complete wiki link: the wiki pattern above must match all of it.
\<close>

definition parseWikiLink :: "string \<Rightarrow> LinkInfo option" where
  "parseWikiLink s =
     (case matchWikiAt s of
        None \<Rightarrow> None
      | Some m \<Rightarrow>
          if m_len m = length s
          then Some \<lparr>text = trim (m_text m), destination = trim (m_dest m), isWiki = True,
                     isEmbed = m_embed m\<rparr>
          else None)"

text \<open>
  Modelled from the spec: section 4.3 (absent \<open>./utils\<close>), \<open>parseClipboardLink(text)\<close>
  tries \<open>parseMarkdownLink\<close> then \<open>parseWikiLink\<close> on the entire trimmed string and
  returns null if the whole string is not exactly one link.
\<close>

definition parseClipboardLink :: "string \<Rightarrow> LinkInfo option" where
  "parseClipboardLink txt =
     (case parseMarkdownLink (trim txt) of
        Some l \<Rightarrow> Some l
      | None \<Rightarrow> parseWikiLink (trim txt))"

text \<open>
  Modelled from the spec: section 4.2 (absent \<open>./utils\<close>), \<open>wikiToMarkdown(destination)\<close>
  percent-encodes space as \<open>%20\<close> and caret as \<open>%5E\<close> and leaves a URL (\<open>isUrl\<close> true)
  untouched; \<open>markdownToWiki(destination)\<close> decodes \<open>%20\<close> to space and \<open>%5E\<close> to caret
  and returns null when the input is a URL.
\<close>

fun percentEncode :: "string \<Rightarrow> string" where
  "percentEncode [] = []"
| "percentEncode (c # cs) =
     (if c = CHR '' '' then ''%20'' @ percentEncode cs
      else if c = CHR ''^'' then ''%5E'' @ percentEncode cs
      else c # percentEncode cs)"

fun percentDecode :: "string \<Rightarrow> string" where
  "percentDecode [] = []"
| "percentDecode (c # cs) =
     (if c = CHR ''%'' \<and> take 2 cs = ''20'' then CHR '' '' # percentDecode (drop 2 cs)
      else if c = CHR ''%'' \<and> take 2 cs = ''5E'' then CHR ''^'' # percentDecode (drop 2 cs)
      else c # percentDecode cs)"

definition wikiToMarkdown :: "string \<Rightarrow> string" where
  "wikiToMarkdown dest = (if isUrl dest then dest else percentEncode dest)"

definition markdownToWiki :: "string \<Rightarrow> string option" where
  "markdownToWiki dest = (if isUrl dest then None else Some (percentDecode dest))"

text \<open>Modelled from the spec: section 4.2, a string "without encoded sequences": neither
  \<open>%20\<close> nor \<open>%5E\<close>, the sequences that the absent \<open>markdownToWiki\<close> decodes, occurs in it.\<close>

fun hasEncoded :: "string \<Rightarrow> bool" where
  "hasEncoded [] = False"
| "hasEncoded (c # cs) =
     ((c = CHR ''%'' \<and> (take 2 cs = ''20'' \<or> take 2 cs = ''5E'')) \<or> hasEncoded cs)"

section \<open>Link validator\<close>

text \<open>
  \<open>validateLinkDestination\<close> is exported by \<open>./utils\<close>, which is not among the sources;
  \<open>src/src/LinkEditModal.ts\<close> calls it (line 400) and reads \<open>warnings\<close>, each with a
  \<open>severity\<close> and a \<open>text\<close>, \<open>shouldHighlightDest\<close> and \<open>shouldHighlightText\<close> (lines
  403-419).
\<close>

datatype Severity = Error | Caution

record ValidationWarning =
  w_text :: string
  severity :: Severity

record ValidationResult =
  isValid :: bool
  warnings :: "ValidationWarning list"
  shouldHighlightDest :: bool
  shouldHighlightText :: bool

text \<open>
  Modelled from the spec: section 4.2, the forbidden-character rule of \<open>isValidWikiLink\<close>
  (absent \<open>./utils\<close>): the filename portion of a wiki destination, the text before an
  optional \<open>#\<close> suffix, contains one of \<open>| ^ : * " ? \ /\<close>.
\<close>

definition forbiddenWikiChars :: "char list" where
  "forbiddenWikiChars =
     [CHR ''|'', CHR ''^'', CHR '':'', CHR ''*'', CHR 0x22, CHR ''?'', CHR 0x5C, CHR ''/'']"

definition hasForbiddenWikiChar :: "string \<Rightarrow> bool" where
  "hasForbiddenWikiChar s =
     list_ex (\<lambda>c. c \<in> set forbiddenWikiChars) (takeWhile (\<lambda>c. c \<noteq> CHR ''#'') s)"

text \<open>
  Modelled from the spec: section 4.5 (absent \<open>./utils\<close>). An error rule makes the result
  invalid, adds a warning of severity \<open>error\<close> and highlights the destination.
\<close>

definition addError :: "string \<Rightarrow> ValidationResult \<Rightarrow> ValidationResult" where
  "addError msg r =
     r\<lparr>isValid := False,
       warnings := warnings r @ [\<lparr>w_text = msg, severity = Error\<rparr>],
       shouldHighlightDest := True\<rparr>"

text \<open>Modelled from the spec: section 4.5 (absent \<open>./utils\<close>). A caution rule only adds a
  warning of severity \<open>caution\<close>.\<close>

definition addCaution :: "string \<Rightarrow> ValidationResult \<Rightarrow> ValidationResult" where
  "addCaution msg r = r\<lparr>warnings := warnings r @ [\<lparr>w_text = msg, severity = Caution\<rparr>]\<rparr>"

text \<open>
  Modelled from the spec: section 4.5 (absent \<open>./utils\<close>),
  \<open>validateLinkDestination(destination, text, isWiki)\<close>, the rules in the order the
  specification lists them: an empty destination is valid with no warnings; a wiki link
  to a URL is an error; a wiki destination with a forbidden character is an error; a
  markdown destination with an unencoded space is a caution; an almost-URL that is not a
  URL is a caution; a destination longer than 500 is a caution. The specification fixes
  the text of the first warning only.
\<close>

definition validateLinkDestination :: "string \<Rightarrow> string \<Rightarrow> bool \<Rightarrow> ValidationResult" where
  "validateLinkDestination dest txt wiki =
     (let r0 = \<lparr>isValid = True, warnings = [], shouldHighlightDest = False,
                shouldHighlightText = False\<rparr>
      in if dest = [] then r0
         else
           (let r1 = (if wiki \<and> isUrl dest
                      then addError ''Wiki links cannot reference external URLs'' r0 else r0);
                r2 = (if wiki \<and> hasForbiddenWikiChar dest
                      then addError ''Destination contains forbidden characters'' r1 else r1);
                r3 = (if \<not> wiki \<and> CHR '' '' \<in> set dest
                      then addCaution ''Destination contains unencoded spaces'' r2 else r2);
                r4 = (if isAlmostUrl dest \<and> \<not> isUrl dest
                      then addCaution ''Destination looks like a URL with a typo'' r3 else r3);
                r5 = (if length dest > 500
                      then addCaution ''Destination is very long'' r4 else r4)
            in r5))"

text \<open>
  Source: \<open>src/unnamed/part_002\<close>, \<open>LinkEditModal.updateUIState\<close> (lines 630-675), the
  inline form of the validator in the bundled plugin: the classes of the warnings it
  collects (\<open>link-warning-error\<close>, \<open>link-warning-caution\<close>), in order, and whether it adds
  the highlight class to the destination input (when there is any warning).
\<close>

datatype WarningClass = LinkWarningError | LinkWarningCaution

definition updateUIState :: "bool \<Rightarrow> string \<Rightarrow> WarningClass list \<times> bool" where
  "updateUIState wiki dest =
     (let destLength = length dest;
          w1 = (if wiki \<and> isUrl dest then [LinkWarningError] else []);
          w2 = (if \<not> isUrl dest \<and> isAlmostUrl dest then [LinkWarningCaution] else []);
          w3 = (if destLength > 500 then [LinkWarningCaution] else []);
          ws = w1 @ w2 @ w3
      in (ws, length ws > 0))"

section \<open>New-link synthesizer\<close>

text \<open>
  \<open>determineLinkFromContext\<close> is imported by \<open>src/src/linkOperations.ts\<close> from the absent
  \<open>./utils\<close>; the fields of its result are the ones \<open>createNewLinkOperation\<close> reads
  (lines 123-157), here with the prefix \<open>lc_\<close>. The conversion notice, whose text is
  \<open>URL converted: <original> \<rightarrow> <normalized>\<close>, is kept as its two parameters.
\<close>

datatype Notice = UrlConverted string string

record LinkFromContext =
  lc_text :: string
  lc_destination :: string
  lc_isWiki :: bool
  lc_start :: nat
  lc_end :: nat
  lc_shouldSelectText :: bool
  lc_conversionNotice :: "Notice option"

text \<open>The notice is set only if normalization changed the string
  (\<open>if (original !== normalized)\<close>, \<open>src/unnamed/part_002\<close>, lines 817, 829, 845).\<close>

definition noticeOnChange :: "string \<Rightarrow> string \<Rightarrow> Notice option" where
  "noticeOnChange original normalized =
     (if original = normalized then None else Some (UrlConverted original normalized))"

text \<open>
  Modelled from the spec: section 4.4 (\<open>determineLinkFromContext\<close> of the absent
  \<open>./utils\<close>), the six rules in their order of precedence, first match winning. The
  arguments are the fields of the object the source passes: \<open>selection\<close>,
  \<open>clipboardText\<close>, \<open>cursorUrl\<close>, \<open>line\<close> and \<open>cursorCh\<close>. Outside rule 3 the range is
  zero-width at the cursor.
\<close>

definition determineLinkFromContext ::
  "string \<Rightarrow> string \<Rightarrow> string option \<Rightarrow> string \<Rightarrow> nat \<Rightarrow> LinkFromContext" where
  "determineLinkFromContext sel clip cursorUrl ltxt c =
     (if isUrl sel then
        \<lparr>lc_text = trim sel, lc_destination = normalizeUrl sel, lc_isWiki = False,
         lc_start = c, lc_end = c, lc_shouldSelectText = True,
         lc_conversionNotice = noticeOnChange (trim sel) (normalizeUrl sel)\<rparr>
      else if sel \<noteq> [] then
        (if isUrl clip then
           \<lparr>lc_text = sel, lc_destination = normalizeUrl clip, lc_isWiki = False,
            lc_start = c, lc_end = c, lc_shouldSelectText = False,
            lc_conversionNotice = noticeOnChange clip (normalizeUrl clip)\<rparr>
         else
           \<lparr>lc_text = sel, lc_destination = clip, lc_isWiki = True,
            lc_start = c, lc_end = c, lc_shouldSelectText = False,
            lc_conversionNotice = None\<rparr>)
      else
        (case cursorUrl of
           Some u \<Rightarrow>
             \<lparr>lc_text = normalizeUrl u, lc_destination = normalizeUrl u, lc_isWiki = False,
              lc_start = fst (urlSpanAtCursor ltxt c), lc_end = snd (urlSpanAtCursor ltxt c),
              lc_shouldSelectText = True,
              lc_conversionNotice = noticeOnChange u (normalizeUrl u)\<rparr>
         | None \<Rightarrow>
             (case parseClipboardLink clip of
                Some l \<Rightarrow>
                  \<lparr>lc_text = text l, lc_destination = destination l, lc_isWiki = isWiki l,
                   lc_start = c, lc_end = c, lc_shouldSelectText = False,
                   lc_conversionNotice = None\<rparr>
              | None \<Rightarrow>
                  if isUrl clip then
                    \<lparr>lc_text = normalizeUrl clip, lc_destination = normalizeUrl clip,
                     lc_isWiki = False, lc_start = c, lc_end = c,
                     lc_shouldSelectText = True,
                     lc_conversionNotice = noticeOnChange clip (normalizeUrl clip)\<rparr>
                  else
                    \<lparr>lc_text = [], lc_destination = clip, lc_isWiki = True,
                     lc_start = c, lc_end = c, lc_shouldSelectText = False,
                     lc_conversionNotice = None\<rparr>)))"

text \<open>
  Source: \<open>src/unnamed/part_002\<close>, the new-link branch of the \<open>edit-link\<close> command (lines
  801-858; the same in \<open>src/main.js\<close>, lines 296-360): the inline form of the synthesizer
  in the bundled plugin, which looks neither for a URL at the cursor nor for a link in the
  clipboard. Its results are \<open>linkText\<close>, \<open>linkDest\<close>, \<open>isWiki = !shouldBeMarkdown\<close>,
  \<open>shouldSelectText\<close> and \<open>conversionNotice\<close>. The clipboard text reaches it trimmed (line
  777).
\<close>

record NewLinkFields =
  nl_text :: string
  nl_destination :: string
  nl_isWiki :: bool
  nl_shouldSelectText :: bool
  nl_conversionNotice :: "Notice option"

definition editLinkNewBranch :: "string \<Rightarrow> string \<Rightarrow> NewLinkFields" where
  "editLinkNewBranch sel clip =
     (let isSelectionUrl = isUrl sel;
          isClipboardUrl = isUrl clip
      in if isSelectionUrl then
           (let original = trim sel;
                normalized = normalizeUrl original
            in \<lparr>nl_text = original, nl_destination = normalized, nl_isWiki = False,
                nl_shouldSelectText = True,
                nl_conversionNotice = noticeOnChange original normalized\<rparr>)
         else if sel \<noteq> [] then
           (if isClipboardUrl then
              (let original = clip;
                   normalized = normalizeUrl original
               in \<lparr>nl_text = sel, nl_destination = normalized, nl_isWiki = False,
                   nl_shouldSelectText = False,
                   nl_conversionNotice = noticeOnChange original normalized\<rparr>)
            else
              \<lparr>nl_text = sel, nl_destination = clip, nl_isWiki = True,
               nl_shouldSelectText = False, nl_conversionNotice = None\<rparr>)
         else if isClipboardUrl then
           (let original = clip;
                normalized = normalizeUrl original
            in \<lparr>nl_text = normalized, nl_destination = normalized, nl_isWiki = False,
                nl_shouldSelectText = True,
                nl_conversionNotice = noticeOnChange original normalized\<rparr>)
         else
           \<lparr>nl_text = [], nl_destination = clip, nl_isWiki = True,
            nl_shouldSelectText = False, nl_conversionNotice = None\<rparr>)"

section \<open>Link operations\<close>

text \<open>
  Source: \<open>src/src/linkOperations.ts\<close>, the interfaces \<open>EditorContext\<close> (lines 24-35),
  \<open>LinkOperation\<close> (lines 40-55) and \<open>EditorContextWithSelection\<close> (lines 167-174, which
  extends \<open>EditorContext\<close>; its two optional positions are options).
\<close>

record EditorContext = CursorContext +
  selection :: string
  clipboardText :: string

record EditorContextWithSelection = EditorContext +
  selectionFrom :: "Position option"
  selectionTo :: "Position option"
  hasSelection :: bool

record LinkOperation =
  op_link :: LinkInfo
  op_start :: nat
  op_end :: nat
  op_enteredFromLeft :: bool
  isNewLink :: bool
  shouldSelectText :: bool
  conversionNotice :: "Notice option"

text \<open>Source: \<open>createEditOperation\<close> (lines 89-99).\<close>

definition createEditOperation :: "LinkAtCursor \<Rightarrow> LinkOperation" where
  "createEditOperation existingLink =
     \<lparr>op_link = link existingLink,
      op_start = start existingLink,
      op_end = end existingLink,
      op_enteredFromLeft = enteredFromLeft existingLink,
      isNewLink = False,
      shouldSelectText = False,
      conversionNotice = None\<rparr>"

text \<open>
  The truth value of a \<open>string | null\<close> in a condition, as in \<open>else if (cursorUrl)\<close>: null
  and the empty string are false.
\<close>

definition truthy :: "string option \<Rightarrow> bool" where
  "truthy v = (case v of None \<Rightarrow> False | Some u \<Rightarrow> u \<noteq> [])"

text \<open>
  Source: \<open>createNewLinkOperation\<close> (lines 104-158). With a selection the range is the
  cursor point (lines 134-138), with a URL at the cursor the range of the link context
  (lines 139-142), else the cursor point.
\<close>

definition createNewLinkOperation :: "string \<Rightarrow> nat \<Rightarrow> string \<Rightarrow> string \<Rightarrow> LinkOperation" where
  "createNewLinkOperation ltxt c sel clip =
     (let cursorUrl = urlAtCursor ltxt c;
          linkContext = determineLinkFromContext sel clip cursorUrl ltxt c;
          lnk = \<lparr>text = lc_text linkContext, destination = lc_destination linkContext,
                 isWiki = lc_isWiki linkContext, isEmbed = False\<rparr>;
          range = (if sel \<noteq> [] then (c, c)
                   else if truthy cursorUrl then (lc_start linkContext, lc_end linkContext)
                   else (c, c))
      in \<lparr>op_link = lnk,
          op_start = fst range,
          op_end = snd range,
          op_enteredFromLeft = True,
          isNewLink = True,
          shouldSelectText = lc_shouldSelectText linkContext,
          conversionNotice = lc_conversionNotice linkContext\<rparr>)"

text \<open>
  Source: \<open>determineLinkOperation\<close> (lines 71-84). The declared result type is
  \<open>LinkOperation | null\<close>, hence the option.
\<close>

definition determineLinkOperation :: "EditorContext \<Rightarrow> LinkOperation option" where
  "determineLinkOperation context =
     (case detectLinkAtCursor (lineText context) (cursorCh context) of
        Some existingLink \<Rightarrow> Some (createEditOperation existingLink)
      | None \<Rightarrow>
          Some (createNewLinkOperation (lineText context) (cursorCh context)
                  (selection context) (clipboardText context)))"

text \<open>
  Source: \<open>determineLinkOperationWithSelection\<close> (lines 179-233): the range is the
  selection's when \<open>hasSelection && selectionFrom && selectionTo\<close>.
\<close>

definition determineLinkOperationWithSelection ::
  "EditorContextWithSelection \<Rightarrow> LinkOperation option" where
  "determineLinkOperationWithSelection context =
     (case detectLinkAtCursor (lineText context) (cursorCh context) of
        Some existingLink \<Rightarrow> Some (createEditOperation existingLink)
      | None \<Rightarrow>
          (let cursorUrl = urlAtCursor (lineText context) (cursorCh context);
               linkContext =
                 determineLinkFromContext (selection context) (clipboardText context)
                   cursorUrl (lineText context) (cursorCh context);
               lnk = \<lparr>text = lc_text linkContext, destination = lc_destination linkContext,
                      isWiki = lc_isWiki linkContext, isEmbed = False\<rparr>;
               range =
                 (case (hasSelection context, selectionFrom context, selectionTo context) of
                    (True, Some from, Some to) \<Rightarrow> (ch from, ch to)
                  | _ \<Rightarrow>
                      if truthy cursorUrl then (lc_start linkContext, lc_end linkContext)
                      else (cursorCh context, cursorCh context))
           in Some \<lparr>op_link = lnk,
                    op_start = fst range,
                    op_end = snd range,
                    op_enteredFromLeft = True,
                    isNewLink = True,
                    shouldSelectText = lc_shouldSelectText linkContext,
                    conversionNotice = lc_conversionNotice linkContext\<rparr>))"

section \<open>Failures\<close>










section \<open>Properties of the cursor link locator\<close>

text \<open>
  Each loop returns the result built from the first match, in the left-to-right list of
  non-overlapping matches, whose span contains the cursor.
\<close>

lemma checkMarkdown_find:
  "checkMarkdown c i s =
     (case find (spanContains c) (markdownMatches i s) of
        None \<Rightarrow> None
      | Some (j, m) \<Rightarrow>
          Some \<lparr>link = \<lparr>text = match1 m, destination = match2 m, isWiki = False,
                         isEmbed = False\<rparr>,
                start = j, end = j + length (match0 m), enteredFromLeft = (c \<le> j + 1)\<rparr>)"
  by (induction c i s rule: checkMarkdown.induct)
     (auto simp: spanContains_def split: option.splits)

lemma checkWiki_find:
  "checkWiki c i s =
     (case find (spanContains c) (wikiMatches i s) of
        None \<Rightarrow> None
      | Some (j, m) \<Rightarrow>
          Some \<lparr>link = \<lparr>text = (case match2 m of Some t \<Rightarrow> t | None \<Rightarrow> match1 m),
                         destination = match1 m, isWiki = True, isEmbed = False\<rparr>,
                start = j, end = j + length (match0 m), enteredFromLeft = (c \<le> j + 2)\<rparr>)"
  by (induction c i s rule: checkWiki.induct)
     (auto simp: spanContains_def split: option.splits)

















section \<open>Properties of the skip position calculator\<close>

text \<open>The comparison with the centre of the span, in whole numbers.\<close>

lemma isOnLeftSide_iff: "isOnLeftSide c s e = (2 * c \<le> s + e)"
proof -
  have "isOnLeftSide c s e = ((of_nat (2 * c) :: rat) \<le> of_nat (s + e))"
    unfolding isOnLeftSide_def linkCenter_def by (simp add: field_simps)
  also have "\<dots> = (2 * c \<le> s + e)" by (rule of_nat_le_iff)
  finally show ?thesis .
qed

text \<open>The lines of the scenarios of section 8, with the cursor offset left open.\<close>

lemma plain_line_no_link: "detectLinkAtCursor ''Plain text with no links'' 10 = None"
  by code_simp

lemma whole_line_markdown: "markdownMatches 0 ''[[my-note]]'' = []"
  by code_simp

lemma whole_line_wiki:
  "wikiMatches 0 ''[[my-note]]'' =
     [(0, \<lparr>match0 = ''[[my-note]]'', match1 = ''my-note'', match2 = None\<rparr>)]"
  by code_simp

lemma whole_line_detect:
  "detectLinkAtCursor ''[[my-note]]'' c =
    (if c \<le> 11 then
     Some \<lparr>link = \<lparr>text = ''my-note'', destination = ''my-note'', isWiki = True,
                    isEmbed = False\<rparr>,
           start = 0, end = 11, enteredFromLeft = (c \<le> 2)\<rparr> else None)"
  unfolding detectLinkAtCursor_def checkMarkdown_find checkWiki_find whole_line_markdown
      whole_line_wiki
  by (auto simp: spanContains_def)

lemma mid_line_markdown: "markdownMatches 0 ''Check [[my-note]] for more'' = []"
  by code_simp

lemma mid_line_wiki:
  "wikiMatches 0 ''Check [[my-note]] for more'' =
     [(6, \<lparr>match0 = ''[[my-note]]'', match1 = ''my-note'', match2 = None\<rparr>)]"
  by code_simp

lemma mid_line_detect:
  "detectLinkAtCursor ''Check [[my-note]] for more'' c =
     (if 6 \<le> c \<and> c \<le> 17 then
        Some \<lparr>link = \<lparr>text = ''my-note'', destination = ''my-note'', isWiki = True,
                       isEmbed = False\<rparr>,
              start = 6, end = 17, enteredFromLeft = (c \<le> 8)\<rparr>
      else None)"
  unfolding detectLinkAtCursor_def checkMarkdown_find checkWiki_find mid_line_markdown
      mid_line_wiki
  by (auto simp: spanContains_def)

lemma tie_line_markdown: "markdownMatches 0 ''Test [[link]] end'' = []"
  by code_simp

lemma tie_line_wiki:
  "wikiMatches 0 ''Test [[link]] end'' =
     [(5, \<lparr>match0 = ''[[link]]'', match1 = ''link'', match2 = None\<rparr>)]"
  by code_simp

lemma tie_line_detect:
  "detectLinkAtCursor ''Test [[link]] end'' 9 =
     Some \<lparr>link = \<lparr>text = ''link'', destination = ''link'', isWiki = True,
                    isEmbed = False\<rparr>,
           start = 5, end = 13, enteredFromLeft = False\<rparr>"
  unfolding detectLinkAtCursor_def checkMarkdown_find checkWiki_find tie_line_markdown
      tie_line_wiki
  by (auto simp: spanContains_def)

text \<open>
  Claim C3, as amended. \<open>determineSkipPosition\<close> takes the cursor to be on the left side
  of a detected link exactly when \<open>cursorCh <= (start + end) / 2\<close>, that is when
  \<open>2 * cursorCh <= start + end\<close>, so a cursor exactly at the midpoint is on the left; for
  a link with room on both sides in its line this decides between the targets \<open>end + 1\<close>
  and \<open>start - 1\<close>. On the line \<open>Check [[my-note]] for more\<close> the detected link has
  \<open>start = 6\<close> and \<open>end = 17\<close>; a cursor at offset 8 skips rightward to
  \<open>{line: 0, ch: 18}\<close>, which is \<open>end + 1\<close>, and a cursor at offset 15 skips leftward to
  \<open>{line: 0, ch: 5}\<close>, which is \<open>start - 1\<close>, both with \<open>skipped = true\<close>.
\<close>

theorem skip_side_classification:
  "isOnLeftSide c s e = (of_nat c \<le> (of_nat s + of_nat e :: rat) / 2) \<and>
   isOnLeftSide c s e = (2 * c \<le> s + e) \<and>
   (2 * c = s + e \<longrightarrow> isOnLeftSide c s e) \<and>
   (detectLinkAtCursor (lineText context) (cursorCh context) = Some l \<and>
    0 < start l \<and> end l < length (lineText context) \<longrightarrow>
    determineSkipPosition context =
      \<lparr>position =
         \<lparr>line = cursorLine context,
          ch = (if of_nat (cursorCh context) \<le> (of_nat (start l) + of_nat (end l) :: rat) / 2
                then end l + 1 else start l - 1)\<rparr>,
       skipped = True\<rparr>) \<and>
   linkSpanAt ''Check [[my-note]] for more'' 8 = Some (6, 17) \<and>
   linkSpanAt ''Check [[my-note]] for more'' 15 = Some (6, 17) \<and>
   determineSkipPosition
     \<lparr>cursorLine = 0, cursorCh = 8, lineText = ''Check [[my-note]] for more'',
      lineCount = n, prevLineLength = p\<rparr> =
   \<lparr>position = \<lparr>line = 0, ch = 18\<rparr>, skipped = True\<rparr> \<and>
   determineSkipPosition
     \<lparr>cursorLine = 0, cursorCh = 15, lineText = ''Check [[my-note]] for more'',
      lineCount = n, prevLineLength = p\<rparr> =
   \<lparr>position = \<lparr>line = 0, ch = 5\<rparr>, skipped = True\<rparr>"
proof (intro conjI impI)
  show rat_form: "isOnLeftSide c s e = (of_nat c \<le> (of_nat s + of_nat e :: rat) / 2)"
    by (simp add: isOnLeftSide_def linkCenter_def)
  show "isOnLeftSide c s e = (2 * c \<le> s + e)"
    by (rule isOnLeftSide_iff)
  show "isOnLeftSide c s e" if "2 * c = s + e"
    using that by (simp add: isOnLeftSide_iff)
  show "determineSkipPosition context =
      \<lparr>position =
         \<lparr>line = cursorLine context,
          ch = (if of_nat (cursorCh context) \<le> (of_nat (start l) + of_nat (end l) :: rat) / 2
                then end l + 1 else start l - 1)\<rparr>,
       skipped = True\<rparr>"
    if "detectLinkAtCursor (lineText context) (cursorCh context) = Some l \<and>
        0 < start l \<and> end l < length (lineText context)"
    using that
    by (auto simp: determineSkipPosition_def Let_def isOnLeftSide_def linkCenter_def)
  show "linkSpanAt ''Check [[my-note]] for more'' 8 = Some (6, 17)"
    by (simp add: linkSpanAt_def mid_line_detect)
  show "linkSpanAt ''Check [[my-note]] for more'' 15 = Some (6, 17)"
    by (simp add: linkSpanAt_def mid_line_detect)
  show "determineSkipPosition
     \<lparr>cursorLine = 0, cursorCh = 8, lineText = ''Check [[my-note]] for more'',
      lineCount = n, prevLineLength = p\<rparr> =
   \<lparr>position = \<lparr>line = 0, ch = 18\<rparr>, skipped = True\<rparr>"
    by (simp add: determineSkipPosition_def mid_line_detect Let_def isOnLeftSide_iff)
  show "determineSkipPosition
     \<lparr>cursorLine = 0, cursorCh = 15, lineText = ''Check [[my-note]] for more'',
      lineCount = n, prevLineLength = p\<rparr> =
   \<lparr>position = \<lparr>line = 0, ch = 5\<rparr>, skipped = True\<rparr>"
    by (simp add: determineSkipPosition_def mid_line_detect Let_def isOnLeftSide_iff)
qed

theorem skip_side_classification_witness:
  "2 * 9 = (5::nat) + 13 \<and> isOnLeftSide 9 5 13 \<and>
   detectLinkAtCursor ''Test [[link]] end'' 9 =
     Some \<lparr>link = \<lparr>text = ''link'', destination = ''link'', isWiki = True,
                    isEmbed = False\<rparr>,
           start = 5, end = 13, enteredFromLeft = False\<rparr> \<and>
   determineSkipPosition
     \<lparr>cursorLine = 0, cursorCh = 9, lineText = ''Test [[link]] end'', lineCount = 10,
      prevLineLength = 20\<rparr> =
   \<lparr>position = \<lparr>line = 0, ch = 14\<rparr>, skipped = True\<rparr>"
  using skip_side_classification
    [of 9 5 13
        "\<lparr>cursorLine = 0, cursorCh = 9, lineText = ''Test [[link]] end'', lineCount = 10,
          prevLineLength = 20\<rparr>"
        "\<lparr>link = \<lparr>text = ''link'', destination = ''link'', isWiki = True,
                    isEmbed = False\<rparr>,
          start = 5, end = 13, enteredFromLeft = False\<rparr>" 10 20]
    tie_line_detect
  by simp

text \<open>
  The span that claim C3 reports for that line, \<open>[6, 18)\<close>, is not the span of the detected
  link: the eleven characters of \<open>[[my-note]]\<close> occupy the offsets 6 to 16, and \<open>end\<close> is 17.
\<close>

theorem skip_scenario_span_counterexample:
  "linkSpanAt ''Check [[my-note]] for more'' 8 = Some (6, 17) \<and>
   linkSpanAt ''Check [[my-note]] for more'' 8 \<noteq> Some (6, 18)"
  by (simp add: linkSpanAt_def mid_line_detect)

text \<open>
  Claim C4. For a detected link whose span does not cover the whole line (not both
  \<open>start = 0\<close> and \<open>end >= lineText.length\<close>), \<open>determineSkipPosition\<close> returns
  \<open>skipped = true\<close> and moves: from the left side to \<open>{line, ch: end + 1}\<close> when \<open>end + 1\<close>
  is within the line, else to \<open>{line + 1, ch: 0}\<close> when a next line exists, else to
  \<open>{line, ch: start - 1}\<close> when \<open>start > 0\<close>, else to \<open>{line, ch: end}\<close>; from the right
  side to \<open>{line, ch: start - 1}\<close> when \<open>start > 0\<close>, else to
  \<open>{line - 1, ch: prevLineLength}\<close> when a previous line exists, else to
  \<open>{line, ch: end + 1}\<close> when that is within the line, else to \<open>{line, ch: 0}\<close>.
\<close>

theorem skip_normal_case:
  assumes "detectLinkAtCursor (lineText context) (cursorCh context) = Some existingLink"
    and "\<not> (start existingLink = 0 \<and> length (lineText context) \<le> end existingLink)"
  shows "determineSkipPosition context =
     \<lparr>position =
        (if isOnLeftSide (cursorCh context) (start existingLink) (end existingLink) then
           (if end existingLink + 1 \<le> length (lineText context) then
              \<lparr>line = cursorLine context, ch = end existingLink + 1\<rparr>
            else if cursorLine context + 1 < lineCount context then
              \<lparr>line = cursorLine context + 1, ch = 0\<rparr>
            else if 0 < start existingLink then
              \<lparr>line = cursorLine context, ch = start existingLink - 1\<rparr>
            else \<lparr>line = cursorLine context, ch = end existingLink\<rparr>)
         else
           (if 0 < start existingLink then
              \<lparr>line = cursorLine context, ch = start existingLink - 1\<rparr>
            else if 0 < cursorLine context then
              \<lparr>line = cursorLine context - 1, ch = prevLineLength context\<rparr>
            else if end existingLink + 1 \<le> length (lineText context) then
              \<lparr>line = cursorLine context, ch = end existingLink + 1\<rparr>
            else \<lparr>line = cursorLine context, ch = 0\<rparr>)),
      skipped = True\<rparr>"
  using assms by (auto simp: determineSkipPosition_def Let_def)

theorem skip_normal_case_witness:
  "detectLinkAtCursor ''Check [[my-note]]'' 8 =
     Some \<lparr>link = \<lparr>text = ''my-note'', destination = ''my-note'', isWiki = True,
                    isEmbed = False\<rparr>,
           start = 6, end = 17, enteredFromLeft = True\<rparr> \<and>
   isOnLeftSide 8 6 17 \<and>
   determineSkipPosition
     \<lparr>cursorLine = 0, cursorCh = 8, lineText = ''Check [[my-note]]'', lineCount = 5,
      prevLineLength = 20\<rparr> =
   \<lparr>position = \<lparr>line = 1, ch = 0\<rparr>, skipped = True\<rparr>"
proof -
  let ?ctx = "\<lparr>cursorLine = 0, cursorCh = 8, lineText = ''Check [[my-note]]'', lineCount = 5,
      prevLineLength = 20\<rparr>"
  let ?l = "\<lparr>link = \<lparr>text = ''my-note'', destination = ''my-note'', isWiki = True,
                    isEmbed = False\<rparr>,
           start = 6, end = 17, enteredFromLeft = True\<rparr>"
  have d: "detectLinkAtCursor ''Check [[my-note]]'' 8 = Some ?l" by code_simp
  have l: "isOnLeftSide 8 6 17" by (simp add: isOnLeftSide_iff)
  from d have h1: "detectLinkAtCursor (lineText ?ctx) (cursorCh ?ctx) = Some ?l" by simp
  have h2: "\<not> (start ?l = 0 \<and> length (lineText ?ctx) \<le> end ?l)" by simp
  show ?thesis using skip_normal_case [OF h1 h2] d l by simp
qed

text \<open>
  Claim C5. When the detected link spans the entire line (\<open>start = 0\<close> and
  \<open>end >= lineText.length\<close>), \<open>determineSkipPosition\<close> returns \<open>skipped = true\<close> and goes,
  from the left side, to \<open>{line + 1, ch: 0}\<close> if a next line exists, else to
  \<open>{line - 1, ch: prevLineLength}\<close> if a previous line exists, else to \<open>{line, ch: end}\<close>;
  from the right side, to the previous line first, else to the next line, else to
  \<open>{line, ch: 0}\<close>. On the line \<open>[[my-note]]\<close>, whose link has the span \<open>(0, 11)\<close>, at
  \<open>cursorLine = 3\<close> with \<open>lineCount = 10\<close>, every cursor on the left side yields
  \<open>{position: {line: 4, ch: 0}, skipped: true}\<close>.
\<close>

theorem skip_whole_line:
  "(detectLinkAtCursor (lineText context) (cursorCh context) = Some existingLink \<and>
    start existingLink = 0 \<and> length (lineText context) \<le> end existingLink \<longrightarrow>
    determineSkipPosition context =
     \<lparr>position =
        (if isOnLeftSide (cursorCh context) (start existingLink) (end existingLink) then
           (if cursorLine context + 1 < lineCount context then
              \<lparr>line = cursorLine context + 1, ch = 0\<rparr>
            else if 0 < cursorLine context then
              \<lparr>line = cursorLine context - 1, ch = prevLineLength context\<rparr>
            else \<lparr>line = cursorLine context, ch = end existingLink\<rparr>)
         else
           (if 0 < cursorLine context then
              \<lparr>line = cursorLine context - 1, ch = prevLineLength context\<rparr>
            else if cursorLine context + 1 < lineCount context then
              \<lparr>line = cursorLine context + 1, ch = 0\<rparr>
            else \<lparr>line = cursorLine context, ch = 0\<rparr>)),
      skipped = True\<rparr>) \<and>
   (c \<le> 11 \<longrightarrow> linkSpanAt ''[[my-note]]'' c = Some (0, 11)) \<and>
   (isOnLeftSide c 0 11 \<longrightarrow>
    determineSkipPosition
      \<lparr>cursorLine = 3, cursorCh = c, lineText = ''[[my-note]]'', lineCount = 10,
       prevLineLength = p\<rparr> =
    \<lparr>position = \<lparr>line = 4, ch = 0\<rparr>, skipped = True\<rparr>)"
proof (intro conjI impI)
  assume "detectLinkAtCursor (lineText context) (cursorCh context) = Some existingLink \<and>
    start existingLink = 0 \<and> length (lineText context) \<le> end existingLink"
  then show "determineSkipPosition context =
     \<lparr>position =
        (if isOnLeftSide (cursorCh context) (start existingLink) (end existingLink) then
           (if cursorLine context + 1 < lineCount context then
              \<lparr>line = cursorLine context + 1, ch = 0\<rparr>
            else if 0 < cursorLine context then
              \<lparr>line = cursorLine context - 1, ch = prevLineLength context\<rparr>
            else \<lparr>line = cursorLine context, ch = end existingLink\<rparr>)
         else
           (if 0 < cursorLine context then
              \<lparr>line = cursorLine context - 1, ch = prevLineLength context\<rparr>
            else if cursorLine context + 1 < lineCount context then
              \<lparr>line = cursorLine context + 1, ch = 0\<rparr>
            else \<lparr>line = cursorLine context, ch = 0\<rparr>)),
      skipped = True\<rparr>"
    by (auto simp: determineSkipPosition_def Let_def)
next
  assume "c \<le> 11"
  then show "linkSpanAt ''[[my-note]]'' c = Some (0, 11)"
    by (simp add: linkSpanAt_def whole_line_detect)
next
  assume "isOnLeftSide c 0 11"
  then have "c \<le> 11" by (simp add: isOnLeftSide_iff)
  with \<open>isOnLeftSide c 0 11\<close> show "determineSkipPosition
      \<lparr>cursorLine = 3, cursorCh = c, lineText = ''[[my-note]]'', lineCount = 10,
       prevLineLength = p\<rparr> =
    \<lparr>position = \<lparr>line = 4, ch = 0\<rparr>, skipped = True\<rparr>"
    by (simp add: determineSkipPosition_def whole_line_detect Let_def)
qed

theorem skip_whole_line_witness:
  "detectLinkAtCursor ''[[my-note]]'' 5 =
     Some \<lparr>link = \<lparr>text = ''my-note'', destination = ''my-note'', isWiki = True,
                    isEmbed = False\<rparr>,
           start = 0, end = 11, enteredFromLeft = False\<rparr> \<and>
   length ''[[my-note]]'' \<le> 11 \<and> isOnLeftSide 5 0 11 \<and>
   linkSpanAt ''[[my-note]]'' 5 = Some (0, 11) \<and>
   determineSkipPosition
     \<lparr>cursorLine = 3, cursorCh = 5, lineText = ''[[my-note]]'', lineCount = 10,
      prevLineLength = 20\<rparr> =
   \<lparr>position = \<lparr>line = 4, ch = 0\<rparr>, skipped = True\<rparr>"
proof -
  have d: "detectLinkAtCursor ''[[my-note]]'' 5 =
     Some \<lparr>link = \<lparr>text = ''my-note'', destination = ''my-note'', isWiki = True,
                    isEmbed = False\<rparr>,
           start = 0, end = 11, enteredFromLeft = False\<rparr>"
    by (simp add: whole_line_detect)
  have l: "isOnLeftSide 5 0 11" by (simp add: isOnLeftSide_iff)
  show ?thesis
    using skip_whole_line
      [of "\<lparr>cursorLine = 3, cursorCh = 5, lineText = ''[[my-note]]'', lineCount = 10,
            prevLineLength = 20\<rparr>"
          "\<lparr>link = \<lparr>text = ''my-note'', destination = ''my-note'', isWiki = True,
                    isEmbed = False\<rparr>,
            start = 0, end = 11, enteredFromLeft = False\<rparr>" 5 20] d l
    by simp
qed

text \<open>
  Claim C6. Whenever no link is detected at the cursor offset, \<open>determineSkipPosition\<close>
  returns \<open>skipped = false\<close> and the input cursor position \<open>{cursorLine, cursorCh}\<close>
  itself: the cursor is left where it was.
\<close>

theorem skip_no_link_unchanged:
  assumes "detectLinkAtCursor (lineText context) (cursorCh context) = None"
  shows "determineSkipPosition context =
           \<lparr>position = \<lparr>line = cursorLine context, ch = cursorCh context\<rparr>, skipped = False\<rparr>"
  using assms by (simp add: determineSkipPosition_def)

theorem skip_no_link_unchanged_witness:
  "detectLinkAtCursor ''Plain text with no links'' 10 = None \<and>
   determineSkipPosition
     \<lparr>cursorLine = 0, cursorCh = 10, lineText = ''Plain text with no links'',
      lineCount = 10, prevLineLength = 20\<rparr> =
   \<lparr>position = \<lparr>line = 0, ch = 10\<rparr>, skipped = False\<rparr>"
  using skip_no_link_unchanged
    [of "\<lparr>cursorLine = 0, cursorCh = 10, lineText = ''Plain text with no links'',
          lineCount = 10, prevLineLength = 20\<rparr>"]
    plain_line_no_link
  by simp

section \<open>Properties of the link operations\<close>

lemma edit_operation_example:
  "determineLinkOperation
     \<lparr>cursorLine = 0, cursorCh = 15,
      lineText = ''Click [here](https://example.com) for details'',
      selection = [], clipboardText = []\<rparr> =
   Some \<lparr>op_link = \<lparr>text = ''here'', destination = ''https://example.com'',
                     isWiki = False, isEmbed = False\<rparr>,
         op_start = 6, op_end = 33, op_enteredFromLeft = False,
         isNewLink = False, shouldSelectText = False, conversionNotice = None\<rparr>"
  by code_simp

lemma new_operation_example:
  "determineLinkOperationWithSelection
     \<lparr>cursorLine = 0, cursorCh = 10, lineText = ''Click here for more'',
      selection = ''here'', clipboardText = ''https://example.com'',
      selectionFrom = Some \<lparr>line = 0, ch = 6\<rparr>, selectionTo = Some \<lparr>line = 0, ch = 10\<rparr>,
      hasSelection = True\<rparr> =
   Some \<lparr>op_link = \<lparr>text = ''here'', destination = ''https://example.com'',
                     isWiki = False, isEmbed = False\<rparr>,
         op_start = 6, op_end = 10, op_enteredFromLeft = True, isNewLink = True,
         shouldSelectText = False, conversionNotice = None\<rparr>"
  by code_simp

text \<open>
  Claim C10. Every \<open>LinkOperation\<close> produced by \<open>determineLinkOperation\<close> or by
  \<open>determineLinkOperationWithSelection\<close> satisfies the output invariant: when \<open>isNewLink\<close>
  is true, \<open>enteredFromLeft\<close> is true and \<open>link.isEmbed\<close> is false; when \<open>isNewLink\<close> is
  false, \<open>shouldSelectText\<close> is false and \<open>conversionNotice\<close> is null.
\<close>

theorem link_operation_invariant:
  assumes "determineLinkOperation context = Some lop \<or>
           determineLinkOperationWithSelection contextS = Some lop"
  shows "(isNewLink lop \<longrightarrow> op_enteredFromLeft lop \<and> \<not> isEmbed (op_link lop)) \<and>
         (\<not> isNewLink lop \<longrightarrow> \<not> shouldSelectText lop \<and> conversionNotice lop = None)"
  using assms
  by (auto simp: determineLinkOperation_def determineLinkOperationWithSelection_def
      createEditOperation_def createNewLinkOperation_def Let_def split: option.splits)

theorem link_operation_invariant_witness:
  "determineLinkOperation
     \<lparr>cursorLine = 0, cursorCh = 15,
      lineText = ''Click [here](https://example.com) for details'',
      selection = [], clipboardText = []\<rparr> =
   Some \<lparr>op_link = \<lparr>text = ''here'', destination = ''https://example.com'',
                     isWiki = False, isEmbed = False\<rparr>,
         op_start = 6, op_end = 33, op_enteredFromLeft = False,
         isNewLink = False, shouldSelectText = False, conversionNotice = None\<rparr> \<and>
   determineLinkOperationWithSelection
     \<lparr>cursorLine = 0, cursorCh = 10, lineText = ''Click here for more'',
      selection = ''here'', clipboardText = ''https://example.com'',
      selectionFrom = Some \<lparr>line = 0, ch = 6\<rparr>, selectionTo = Some \<lparr>line = 0, ch = 10\<rparr>,
      hasSelection = True\<rparr> =
   Some \<lparr>op_link = \<lparr>text = ''here'', destination = ''https://example.com'',
                     isWiki = False, isEmbed = False\<rparr>,
         op_start = 6, op_end = 10, op_enteredFromLeft = True, isNewLink = True,
         shouldSelectText = False, conversionNotice = None\<rparr>"
proof -
  let ?ce = "\<lparr>cursorLine = 0, cursorCh = 15,
      lineText = ''Click [here](https://example.com) for details'',
      selection = [], clipboardText = []\<rparr>"
  let ?cn = "\<lparr>cursorLine = 0, cursorCh = 10, lineText = ''Click here for more'',
      selection = ''here'', clipboardText = ''https://example.com'',
      selectionFrom = Some \<lparr>line = 0, ch = 6\<rparr>, selectionTo = Some \<lparr>line = 0, ch = 10\<rparr>,
      hasSelection = True\<rparr>"
  obtain e where e: "determineLinkOperation ?ce = Some e"
    using edit_operation_example by blast
  obtain n where n: "determineLinkOperationWithSelection ?cn = Some n"
    using new_operation_example by blast
  from e have "determineLinkOperation ?ce = Some e \<or>
      determineLinkOperationWithSelection ?cn = Some e" by simp
  note inv_e = link_operation_invariant [OF this]
  from n have "determineLinkOperation ?ce = Some n \<or>
      determineLinkOperationWithSelection ?cn = Some n" by simp
  note inv_n = link_operation_invariant [OF this]
  show ?thesis
    using inv_e inv_n edit_operation_example new_operation_example by simp
qed

section \<open>Properties of the codec\<close>

text \<open>
  Encoding leaves the characters \<open>2\<close>, \<open>0\<close>, \<open>5\<close> and \<open>E\<close> alone and every sequence it
  produces starts with \<open>%\<close>, so a \<open>%\<close> of the input is followed by \<open>20\<close> or \<open>5E\<close> after
  encoding only if it was before.
\<close>

lemma percentEncode_take2 [simp]:
  "(take 2 (percentEncode cs) = ''20'') = (take 2 cs = ''20'')"
  "(take 2 (percentEncode cs) = ''5E'') = (take 2 cs = ''5E'')"
  by (cases cs; simp; cases "tl cs"; auto)+

lemma percentDecode_percentEncode:
  "\<not> hasEncoded s \<Longrightarrow> percentDecode (percentEncode s) = s"
  by (induction s) auto

lemma url_example: "isUrl ''https://example.com''"
  by code_simp

lemma plain_example:
  "\<not> hasEncoded ''My Note^ref'' \<and> \<not> isUrl (wikiToMarkdown ''My Note^ref'')"
  by code_simp

text \<open>
  Claim C7, as amended. \<open>markdownToWiki(u)\<close> returns null, not the original string, for
  every \<open>u\<close> with \<open>isUrl(u)\<close> true, and \<open>wikiToMarkdown\<close> leaves such a \<open>u\<close> unchanged. For
  every string \<open>s\<close> without encoded sequences whose encoding \<open>wikiToMarkdown(s)\<close> is not a
  URL (such an \<open>s\<close> is not a URL itself), \<open>markdownToWiki(wikiToMarkdown(s)) = s\<close>: encoding
  space as \<open>%20\<close> and caret as \<open>%5E\<close> is exactly inverted by decoding. For a non-URL \<open>s\<close>
  whose encoding is a URL the round trip returns null.
\<close>

theorem codec_url_exclusion_roundtrip:
  "(isUrl u \<longrightarrow> markdownToWiki u = None \<and> wikiToMarkdown u = u) \<and>
   (\<not> hasEncoded s \<and> \<not> isUrl (wikiToMarkdown s) \<longrightarrow>
      \<not> isUrl s \<and> markdownToWiki (wikiToMarkdown s) = Some s) \<and>
   (\<not> isUrl s \<and> isUrl (wikiToMarkdown s) \<longrightarrow> markdownToWiki (wikiToMarkdown s) = None) \<and>
   wikiToMarkdown ''My Note'' = ''My%20Note'' \<and>
   wikiToMarkdown ''Note^ref'' = ''Note%5Eref'' \<and>
   markdownToWiki ''My%20Note'' = Some ''My Note'' \<and>
   markdownToWiki ''Note%5Eref'' = Some ''Note^ref''"
proof (intro conjI impI)
  show "markdownToWiki u = None" if "isUrl u"
    using that by (simp add: markdownToWiki_def)
  show "wikiToMarkdown u = u" if "isUrl u"
    using that by (simp add: wikiToMarkdown_def)
  show nonurl: "\<not> isUrl s" if "\<not> hasEncoded s \<and> \<not> isUrl (wikiToMarkdown s)"
    using that by (auto simp: wikiToMarkdown_def)
  show "markdownToWiki (wikiToMarkdown s) = Some s"
    if "\<not> hasEncoded s \<and> \<not> isUrl (wikiToMarkdown s)"
  proof -
    from that have "\<not> isUrl s" by (rule nonurl)
    then have enc: "wikiToMarkdown s = percentEncode s"
      by (simp add: wikiToMarkdown_def)
    with that have "markdownToWiki (wikiToMarkdown s) = Some (percentDecode (percentEncode s))"
      by (simp add: markdownToWiki_def)
    with that show ?thesis by (simp add: percentDecode_percentEncode)
  qed
  show "markdownToWiki (wikiToMarkdown s) = None" if "\<not> isUrl s \<and> isUrl (wikiToMarkdown s)"
    using that by (simp add: markdownToWiki_def)
  show "wikiToMarkdown ''My Note'' = ''My%20Note''" by code_simp
  show "wikiToMarkdown ''Note^ref'' = ''Note%5Eref''" by code_simp
  show "markdownToWiki ''My%20Note'' = Some ''My Note''" by code_simp
  show "markdownToWiki ''Note%5Eref'' = Some ''Note^ref''" by code_simp
qed

theorem codec_url_exclusion_roundtrip_witness:
  "isUrl ''https://example.com'' \<and>
   markdownToWiki ''https://example.com'' = None \<and>
   wikiToMarkdown ''https://example.com'' = ''https://example.com'' \<and>
   \<not> hasEncoded ''My Note^ref'' \<and> \<not> isUrl (wikiToMarkdown ''My Note^ref'') \<and>
   markdownToWiki (wikiToMarkdown ''My Note^ref'') = Some ''My Note^ref''"
  using codec_url_exclusion_roundtrip [of "''https://example.com''" "''My Note^ref''"]
    url_example plain_example
  by simp

text \<open>
  The round trip of claim C7 as stated fails for \<open>www.a b\<close>: the space keeps it from being
  a URL, it holds no encoded sequence, its encoding \<open>www.a%20b\<close> is a URL, and
  \<open>markdownToWiki\<close> answers null for a URL.
\<close>

theorem codec_roundtrip_counterexample:
  "\<not> isUrl ''www.a b'' \<and> \<not> hasEncoded ''www.a b'' \<and>
   wikiToMarkdown ''www.a b'' = ''www.a%20b'' \<and>
   markdownToWiki (wikiToMarkdown ''www.a b'') = None \<and>
   markdownToWiki (wikiToMarkdown ''www.a b'') \<noteq> Some ''www.a b''"
  by code_simp

section \<open>Properties of the link validator\<close>

lemma validate_wiki_url_example:
  "validateLinkDestination ''https://example.com'' ''text'' True =
     \<lparr>isValid = False,
      warnings =
        [\<lparr>w_text = ''Wiki links cannot reference external URLs'', severity = Error\<rparr>,
         \<lparr>w_text = ''Destination contains forbidden characters'', severity = Error\<rparr>],
      shouldHighlightDest = True, shouldHighlightText = False\<rparr>"
  by code_simp

lemma validate_caution_example:
  "validateLinkDestination ''htp://example.com'' ''text'' False =
     \<lparr>isValid = True,
      warnings =
        [\<lparr>w_text = ''Destination looks like a URL with a typo'', severity = Caution\<rparr>],
      shouldHighlightDest = False, shouldHighlightText = False\<rparr>"
  by code_simp

text \<open>
  Claim C8. \<open>validateLinkDestination\<close> returns \<open>isValid = true\<close> with an empty warnings list
  for an empty destination; it returns \<open>isValid = false\<close> with a warning of severity
  \<open>error\<close> and destination highlighting when \<open>isWiki\<close> is true and the destination
  satisfies \<open>isUrl\<close>; and \<open>isValid\<close> is false exactly when at least one warning of
  severity \<open>error\<close> is present, which the caution rules (unencoded space, almost-URL,
  length over 500) never bring about: validity only depends on the two error rules. The
  inline validator of the bundled plugin, \<open>updateUIState\<close>, agrees on the first two
  points: no warning for an empty destination, and an error-class warning (exactly then)
  with the destination highlighted for a wiki link to a URL.
\<close>

theorem validate_destination_validity:
  "validateLinkDestination [] txt wiki =
     \<lparr>isValid = True, warnings = [], shouldHighlightDest = False,
      shouldHighlightText = False\<rparr> \<and>
   (wiki \<and> isUrl dest \<longrightarrow>
      \<not> isValid (validateLinkDestination dest txt wiki) \<and>
      list_ex (\<lambda>w. severity w = Error) (warnings (validateLinkDestination dest txt wiki)) \<and>
      shouldHighlightDest (validateLinkDestination dest txt wiki)) \<and>
   isValid (validateLinkDestination dest txt wiki) =
     (\<not> list_ex (\<lambda>w. severity w = Error) (warnings (validateLinkDestination dest txt wiki))) \<and>
   isValid (validateLinkDestination dest txt wiki) =
     (\<not> (dest \<noteq> [] \<and> wiki \<and> (isUrl dest \<or> hasForbiddenWikiChar dest))) \<and>
   updateUIState wiki [] = ([], False) \<and>
   (LinkWarningError \<in> set (fst (updateUIState wiki dest))) = (wiki \<and> isUrl dest) \<and>
   (wiki \<and> isUrl dest \<longrightarrow> snd (updateUIState wiki dest))"
  by (auto simp: validateLinkDestination_def Let_def addError_def addCaution_def isUrl_def
      updateUIState_def isAlmostUrl_def)

theorem validate_destination_validity_witness:
  "isUrl ''https://example.com'' \<and>
   validateLinkDestination ''https://example.com'' ''text'' True =
     \<lparr>isValid = False,
      warnings =
        [\<lparr>w_text = ''Wiki links cannot reference external URLs'', severity = Error\<rparr>,
         \<lparr>w_text = ''Destination contains forbidden characters'', severity = Error\<rparr>],
      shouldHighlightDest = True, shouldHighlightText = False\<rparr> \<and>
   validateLinkDestination ''htp://example.com'' ''text'' False =
     \<lparr>isValid = True,
      warnings =
        [\<lparr>w_text = ''Destination looks like a URL with a typo'', severity = Caution\<rparr>],
      shouldHighlightDest = False, shouldHighlightText = False\<rparr>"
proof -
  have u: "isUrl ''https://example.com''" by code_simp
  show ?thesis
    using validate_destination_validity [of "''text''" True "''https://example.com''"]
      validate_destination_validity [of "''text''" False "''htp://example.com''"]
      u validate_wiki_url_example validate_caution_example
    by simp
qed

section \<open>Properties of the new-link synthesizer\<close>

text \<open>Every URL listed for a line is non-empty and stands at its offset in the line.\<close>

lemma urlMatches_sound:
  "(j, u) \<in> set (urlMatches i s) \<Longrightarrow>
     i \<le> j \<and> u \<noteq> [] \<and> take (length u) (drop (j - i) s) = u"
proof (induction i s rule: urlMatches.induct)
  case (1 i)
  then show ?case by simp
next
  case (2 i x xs)
  show ?case
  proof (cases "matchUrlAt (x # xs)")
    case None
    with 2 have "i + 1 \<le> j \<and> u \<noteq> [] \<and> take (length u) (drop (j - (i + 1)) xs) = u"
      by simp
    then show ?thesis by (simp add: drop_Cons')
  next
    case (Some n)
    from Some have npos: "0 < n" by (rule matchUrlAt_len_pos)
    from "2.prems" Some
    consider "j = i" "u = take n (x # xs)"
      | "(j, u) \<in> set (urlMatches (i + n) (drop n (x # xs)))"
      by auto
    then show ?thesis
    proof cases
      case 1
      with npos show ?thesis by (auto simp: min_def)
    next
      case 2
      with "2.IH"(2) [OF Some] have ih:
        "i + n \<le> j \<and> u \<noteq> [] \<and>
         take (length u) (drop (j - (i + n)) (drop n (x # xs))) = u"
        by blast
      then have e: "j - (i + n) + n = j - i" by simp
      from ih have "take (length u) (drop (j - i) (x # xs)) = u"
        unfolding drop_drop e by blast
      with ih show ?thesis by simp
    qed
  qed
qed

lemma urlAtCursor_span:
  assumes "urlAtCursor ltxt c = Some u"
  shows "u \<noteq> [] \<and> snd (urlSpanAtCursor ltxt c) = fst (urlSpanAtCursor ltxt c) + length u \<and>
         fst (urlSpanAtCursor ltxt c) \<le> c \<and> c \<le> snd (urlSpanAtCursor ltxt c) \<and>
         take (length u) (drop (fst (urlSpanAtCursor ltxt c)) ltxt) = u"
proof -
  from assms obtain i where f: "find (urlSpanContains c) (urlMatches 0 ltxt) = Some (i, u)"
    by (auto simp: urlAtCursor_def split: option.splits)
  then have "(i, u) \<in> set (urlMatches 0 ltxt)" and "urlSpanContains c (i, u)"
    by (auto simp: find_Some_iff in_set_conv_nth)
  with urlMatches_sound [of i u 0 ltxt] f show ?thesis
    by (simp add: urlSpanAtCursor_def urlSpanContains_def)
qed

text \<open>Trimming twice is trimming once, so \<open>normalizeUrl\<close> ignores an earlier trim.\<close>

lemma dropWhile_fixed: "xs = [] \<or> \<not> P (hd xs) \<Longrightarrow> dropWhile P xs = xs"
  by (cases xs) auto

lemma dropWhile_last: "dropWhile P xs \<noteq> [] \<Longrightarrow> last (dropWhile P xs) = last xs"
  by (induction xs) (auto split: if_splits)

lemma trim_idem: "trim (trim s) = trim s"
proof -
  define a where "a = dropWhile isSpace s"
  define b where "b = dropWhile isSpace (rev a)"
  have t: "trim s = rev b" by (simp add: trim_def a_def b_def)
  have "dropWhile isSpace (rev b) = rev b"
  proof (cases "b = []")
    case True
    then show ?thesis by simp
  next
    case False
    then have "last b = last (rev a)" unfolding b_def by (rule dropWhile_last)
    moreover from False have ra: "rev a \<noteq> []" unfolding b_def by auto
    ultimately have "last b = hd a" by (simp add: last_rev)
    moreover from ra have "\<not> isSpace (hd a)" unfolding a_def by (simp add: hd_dropWhile)
    ultimately have "\<not> isSpace (hd (rev b))" using False by (simp add: hd_rev)
    then show ?thesis by (intro dropWhile_fixed) simp
  qed
  moreover have "dropWhile isSpace b = b" unfolding b_def by simp
  ultimately show ?thesis unfolding t by (simp add: trim_def)
qed

lemma normalizeUrl_trim:
  assumes "trim s \<noteq> []"
  shows "normalizeUrl (trim s) = normalizeUrl s"
proof -
  from assms have "s \<noteq> []" by (auto simp: trim_def)
  with assms show ?thesis by (simp add: normalizeUrl_def trim_idem Let_def)
qed

lemma isUrl_trim_nonempty: "isUrl s \<Longrightarrow> trim s \<noteq> []"
  by (auto simp: isUrl_def isUrlPattern_def startsWithCI_def split: if_splits)

text \<open>
  Without a URL at the cursor and without a whole link in the clipboard, the new-link
  operation has the text, destination, format, selection flag and notice that the inline
  synthesizer of the bundled plugin computes.
\<close>

lemma new_link_agrees_with_inline:
  assumes "urlAtCursor ltxt c = None" and "parseClipboardLink clip = None"
  shows "\<lparr>nl_text = text (op_link (createNewLinkOperation ltxt c sel clip)),
          nl_destination = destination (op_link (createNewLinkOperation ltxt c sel clip)),
          nl_isWiki = isWiki (op_link (createNewLinkOperation ltxt c sel clip)),
          nl_shouldSelectText = shouldSelectText (createNewLinkOperation ltxt c sel clip),
          nl_conversionNotice = conversionNotice (createNewLinkOperation ltxt c sel clip)\<rparr> =
         editLinkNewBranch sel clip"
  using assms
  by (auto simp: createNewLinkOperation_def determineLinkFromContext_def editLinkNewBranch_def
      Let_def normalizeUrl_trim isUrl_trim_nonempty)

lemma new_link_examples:
  "createNewLinkOperation ''Visit www.example.com today'' 8 ''www.example.com'' [] =
     \<lparr>op_link = \<lparr>text = ''www.example.com'', destination = ''https://www.example.com'',
                 isWiki = False, isEmbed = False\<rparr>,
      op_start = 8, op_end = 8, op_enteredFromLeft = True, isNewLink = True,
      shouldSelectText = True,
      conversionNotice = Some (UrlConverted ''www.example.com'' ''https://www.example.com'')\<rparr>"
  "createNewLinkOperation ''Click here for more info'' 6 ''here'' ''https://example.com'' =
     \<lparr>op_link = \<lparr>text = ''here'', destination = ''https://example.com'',
                 isWiki = False, isEmbed = False\<rparr>,
      op_start = 6, op_end = 6, op_enteredFromLeft = True, isNewLink = True,
      shouldSelectText = False, conversionNotice = None\<rparr>"
  "createNewLinkOperation ''Visit www.example.com today'' 8 [] [] =
     \<lparr>op_link = \<lparr>text = ''https://www.example.com'',
                 destination = ''https://www.example.com'', isWiki = False, isEmbed = False\<rparr>,
      op_start = 6, op_end = 21, op_enteredFromLeft = True, isNewLink = True,
      shouldSelectText = True,
      conversionNotice = Some (UrlConverted ''www.example.com'' ''https://www.example.com'')\<rparr>"
  "createNewLinkOperation ''Plain text'' 5 [] ''[[other-note|Other Note]]'' =
     \<lparr>op_link = \<lparr>text = ''Other Note'', destination = ''other-note'', isWiki = True,
                 isEmbed = False\<rparr>,
      op_start = 5, op_end = 5, op_enteredFromLeft = True, isNewLink = True,
      shouldSelectText = False, conversionNotice = None\<rparr>"
  "createNewLinkOperation ''Plain text'' 5 [] ''https://example.com'' =
     \<lparr>op_link = \<lparr>text = ''https://example.com'', destination = ''https://example.com'',
                 isWiki = False, isEmbed = False\<rparr>,
      op_start = 5, op_end = 5, op_enteredFromLeft = True, isNewLink = True,
      shouldSelectText = True, conversionNotice = None\<rparr>"
  "createNewLinkOperation ''Plain text line'' 6 [] ''some words'' =
     \<lparr>op_link = \<lparr>text = [], destination = ''some words'', isWiki = True, isEmbed = False\<rparr>,
      op_start = 6, op_end = 6, op_enteredFromLeft = True, isNewLink = True,
      shouldSelectText = False, conversionNotice = None\<rparr>"
  by code_simp+

lemma new_link_example_inputs:
  "isUrl ''www.example.com''" "\<not> isUrl ''here''" "isUrl ''https://example.com''"
  "urlAtCursor ''Visit www.example.com today'' 8 = Some ''www.example.com''"
  "urlAtCursor ''Plain text'' 5 = None" "urlAtCursor ''Plain text line'' 6 = None"
  "parseClipboardLink ''[[other-note|Other Note]]'' =
     Some \<lparr>text = ''Other Note'', destination = ''other-note'', isWiki = True,
           isEmbed = False\<rparr>"
  "parseClipboardLink ''https://example.com'' = None"
  "parseClipboardLink ''some words'' = None" "\<not> isUrl ''some words''"
  by code_simp+

text \<open>
  Claim C1. The new-link synthesizer applies the six rules of section 4.4 in order, the
  first match winning. (1) A selection that is itself a URL yields \<open>text\<close> = the trimmed
  selection, \<open>destination = normalizeUrl(selection)\<close>, markdown format and
  \<open>shouldSelectText = true\<close>. (2) A non-empty selection that is not a URL yields
  \<open>text\<close> = the selection, with the destination from the clipboard: markdown with
  \<open>normalizeUrl\<close> if the clipboard is a URL, else the clipboard verbatim as a wiki
  destination. (3) With no selection but a URL at the cursor, \<open>text\<close> and \<open>destination\<close> both
  equal \<open>normalizeUrl(cursorUrl)\<close>, the format is markdown, \<open>shouldSelectText = true\<close>, and
  \<open>start\<close>/\<open>end\<close> are the URL's own span in the line, which contains the cursor and is not
  the cursor point. (4) With no selection and no URL at the cursor, a clipboard that parses
  as a whole wiki or markdown link supplies \<open>text\<close>, \<open>destination\<close> and \<open>isWiki\<close> directly.
  (5) Else a clipboard that is a bare URL yields \<open>text = destination =
  normalizeUrl(clipboard)\<close>, markdown, \<open>shouldSelectText = true\<close>. (6) Otherwise \<open>text\<close> is
  empty, \<open>destination\<close> is the clipboard text, the format is wiki and the range is
  zero-width at the cursor. In the cases (1), (2), (5) and (6) reached without a URL at
  the cursor and without a link in the clipboard, the result is the one of the inline
  synthesizer of the bundled plugin.
\<close>

theorem new_link_precedence:
  assumes "lop = createNewLinkOperation ltxt c sel clip"
  shows
   "(isUrl sel \<longrightarrow>
       text (op_link lop) = trim sel \<and> destination (op_link lop) = normalizeUrl sel \<and>
       \<not> isWiki (op_link lop) \<and> shouldSelectText lop) \<and>
    (sel \<noteq> [] \<and> \<not> isUrl sel \<longrightarrow>
       text (op_link lop) = sel \<and>
       (if isUrl clip
        then destination (op_link lop) = normalizeUrl clip \<and> \<not> isWiki (op_link lop)
        else destination (op_link lop) = clip \<and> isWiki (op_link lop))) \<and>
    (sel = [] \<and> urlAtCursor ltxt c = Some u \<longrightarrow>
       text (op_link lop) = normalizeUrl u \<and> destination (op_link lop) = normalizeUrl u \<and>
       \<not> isWiki (op_link lop) \<and> shouldSelectText lop \<and>
       op_start lop \<le> c \<and> c \<le> op_end lop \<and> op_start lop < op_end lop \<and>
       op_end lop = op_start lop + length u \<and>
       take (length u) (drop (op_start lop) ltxt) = u) \<and>
    (sel = [] \<and> urlAtCursor ltxt c = None \<and> parseClipboardLink clip = Some l \<longrightarrow>
       text (op_link lop) = text l \<and> destination (op_link lop) = destination l \<and>
       isWiki (op_link lop) = isWiki l) \<and>
    (sel = [] \<and> urlAtCursor ltxt c = None \<and> parseClipboardLink clip = None \<and> isUrl clip \<longrightarrow>
       text (op_link lop) = normalizeUrl clip \<and>
       destination (op_link lop) = normalizeUrl clip \<and>
       \<not> isWiki (op_link lop) \<and> shouldSelectText lop) \<and>
    (sel = [] \<and> urlAtCursor ltxt c = None \<and> parseClipboardLink clip = None \<and>
     \<not> isUrl clip \<longrightarrow>
       text (op_link lop) = [] \<and> destination (op_link lop) = clip \<and>
       isWiki (op_link lop) \<and> op_start lop = c \<and> op_end lop = c) \<and>
    (urlAtCursor ltxt c = None \<and> parseClipboardLink clip = None \<longrightarrow>
       \<lparr>nl_text = text (op_link lop), nl_destination = destination (op_link lop),
        nl_isWiki = isWiki (op_link lop), nl_shouldSelectText = shouldSelectText lop,
        nl_conversionNotice = conversionNotice lop\<rparr> =
       editLinkNewBranch sel clip)"
proof (intro conjI impI)
  note defs = assms createNewLinkOperation_def determineLinkFromContext_def Let_def
  have empty_sel: "\<not> isUrl []" by (simp add: isUrl_def)
  show "text (op_link lop) = trim sel" "destination (op_link lop) = normalizeUrl sel"
    "\<not> isWiki (op_link lop)" "shouldSelectText lop" if "isUrl sel"
    using that by (simp_all add: defs)
  show "text (op_link lop) = sel"
    "if isUrl clip
     then destination (op_link lop) = normalizeUrl clip \<and> \<not> isWiki (op_link lop)
     else destination (op_link lop) = clip \<and> isWiki (op_link lop)"
    if "sel \<noteq> [] \<and> \<not> isUrl sel"
    using that by (simp_all add: defs)
  show "text (op_link lop) = normalizeUrl u" "destination (op_link lop) = normalizeUrl u"
    "\<not> isWiki (op_link lop)" "shouldSelectText lop"
    "op_start lop \<le> c" "c \<le> op_end lop" "op_start lop < op_end lop"
    "op_end lop = op_start lop + length u"
    "take (length u) (drop (op_start lop) ltxt) = u"
    if h: "sel = [] \<and> urlAtCursor ltxt c = Some u"
  proof -
    from h have u: "urlAtCursor ltxt c = Some u" by simp
    note sp = urlAtCursor_span [OF u]
    from sp have t: "truthy (urlAtCursor ltxt c)" by (simp add: u truthy_def)
    from h t have st: "op_start lop = fst (urlSpanAtCursor ltxt c)"
      and en: "op_end lop = snd (urlSpanAtCursor ltxt c)"
      by (simp_all add: defs empty_sel)
    show "text (op_link lop) = normalizeUrl u" "destination (op_link lop) = normalizeUrl u"
      "\<not> isWiki (op_link lop)" "shouldSelectText lop"
      using h by (simp_all add: defs empty_sel)
    show "op_start lop \<le> c" "c \<le> op_end lop" "op_start lop < op_end lop"
      "op_end lop = op_start lop + length u"
      "take (length u) (drop (op_start lop) ltxt) = u"
      using sp unfolding st en by simp_all
  qed
  show "text (op_link lop) = text l" "destination (op_link lop) = destination l"
    "isWiki (op_link lop) = isWiki l"
    if "sel = [] \<and> urlAtCursor ltxt c = None \<and> parseClipboardLink clip = Some l"
    using that by (simp_all add: defs empty_sel)
  show "text (op_link lop) = normalizeUrl clip" "destination (op_link lop) = normalizeUrl clip"
    "\<not> isWiki (op_link lop)" "shouldSelectText lop"
    if "sel = [] \<and> urlAtCursor ltxt c = None \<and> parseClipboardLink clip = None \<and> isUrl clip"
    using that by (simp_all add: defs empty_sel)
  show "text (op_link lop) = []" "destination (op_link lop) = clip"
    "isWiki (op_link lop)" "op_start lop = c" "op_end lop = c"
    if "sel = [] \<and> urlAtCursor ltxt c = None \<and> parseClipboardLink clip = None \<and>
        \<not> isUrl clip"
    using that by (simp_all add: defs empty_sel truthy_def)
  show "\<lparr>nl_text = text (op_link lop), nl_destination = destination (op_link lop),
        nl_isWiki = isWiki (op_link lop), nl_shouldSelectText = shouldSelectText lop,
        nl_conversionNotice = conversionNotice lop\<rparr> =
       editLinkNewBranch sel clip"
    if "urlAtCursor ltxt c = None \<and> parseClipboardLink clip = None"
    using that new_link_agrees_with_inline [of ltxt c clip sel] unfolding assms by simp
qed

theorem new_link_precedence_witness:
  "isUrl ''www.example.com'' \<and>
   createNewLinkOperation ''Visit www.example.com today'' 8 ''www.example.com'' [] =
     \<lparr>op_link = \<lparr>text = ''www.example.com'', destination = ''https://www.example.com'',
                 isWiki = False, isEmbed = False\<rparr>,
      op_start = 8, op_end = 8, op_enteredFromLeft = True, isNewLink = True,
      shouldSelectText = True,
      conversionNotice = Some (UrlConverted ''www.example.com'' ''https://www.example.com'')\<rparr> \<and>
   \<not> isUrl ''here'' \<and> isUrl ''https://example.com'' \<and>
   createNewLinkOperation ''Click here for more info'' 6 ''here'' ''https://example.com'' =
     \<lparr>op_link = \<lparr>text = ''here'', destination = ''https://example.com'',
                 isWiki = False, isEmbed = False\<rparr>,
      op_start = 6, op_end = 6, op_enteredFromLeft = True, isNewLink = True,
      shouldSelectText = False, conversionNotice = None\<rparr> \<and>
   urlAtCursor ''Visit www.example.com today'' 8 = Some ''www.example.com'' \<and>
   createNewLinkOperation ''Visit www.example.com today'' 8 [] [] =
     \<lparr>op_link = \<lparr>text = ''https://www.example.com'',
                 destination = ''https://www.example.com'', isWiki = False, isEmbed = False\<rparr>,
      op_start = 6, op_end = 21, op_enteredFromLeft = True, isNewLink = True,
      shouldSelectText = True,
      conversionNotice = Some (UrlConverted ''www.example.com'' ''https://www.example.com'')\<rparr> \<and>
   urlAtCursor ''Plain text'' 5 = None \<and>
   parseClipboardLink ''[[other-note|Other Note]]'' =
     Some \<lparr>text = ''Other Note'', destination = ''other-note'', isWiki = True,
           isEmbed = False\<rparr> \<and>
   createNewLinkOperation ''Plain text'' 5 [] ''[[other-note|Other Note]]'' =
     \<lparr>op_link = \<lparr>text = ''Other Note'', destination = ''other-note'', isWiki = True,
                 isEmbed = False\<rparr>,
      op_start = 5, op_end = 5, op_enteredFromLeft = True, isNewLink = True,
      shouldSelectText = False, conversionNotice = None\<rparr> \<and>
   parseClipboardLink ''https://example.com'' = None \<and>
   createNewLinkOperation ''Plain text'' 5 [] ''https://example.com'' =
     \<lparr>op_link = \<lparr>text = ''https://example.com'', destination = ''https://example.com'',
                 isWiki = False, isEmbed = False\<rparr>,
      op_start = 5, op_end = 5, op_enteredFromLeft = True, isNewLink = True,
      shouldSelectText = True, conversionNotice = None\<rparr> \<and>
   urlAtCursor ''Plain text line'' 6 = None \<and> parseClipboardLink ''some words'' = None \<and>
   \<not> isUrl ''some words'' \<and>
   createNewLinkOperation ''Plain text line'' 6 [] ''some words'' =
     \<lparr>op_link = \<lparr>text = [], destination = ''some words'', isWiki = True, isEmbed = False\<rparr>,
      op_start = 6, op_end = 6, op_enteredFromLeft = True, isNewLink = True,
      shouldSelectText = False, conversionNotice = None\<rparr>"
  using
    new_link_precedence [OF refl, where ltxt = "''Visit www.example.com today''" and c = 8
      and sel = "''www.example.com''" and clip = "[]"]
    new_link_precedence [OF refl, where ltxt = "''Click here for more info''" and c = 6
      and sel = "''here''" and clip = "''https://example.com''"]
    new_link_precedence [OF refl, where ltxt = "''Visit www.example.com today''" and c = 8
      and sel = "[]" and clip = "[]" and u = "''www.example.com''"]
    new_link_precedence [OF refl, where ltxt = "''Plain text''" and c = 5
      and sel = "[]" and clip = "''[[other-note|Other Note]]''"
      and l = "\<lparr>text = ''Other Note'', destination = ''other-note'', isWiki = True,
                isEmbed = False\<rparr>"]
    new_link_precedence [OF refl, where ltxt = "''Plain text''" and c = 5
      and sel = "[]" and clip = "''https://example.com''"]
    new_link_precedence [OF refl, where ltxt = "''Plain text line''" and c = 6
      and sel = "[]" and clip = "''some words''"]
    new_link_examples new_link_example_inputs
  by simp

section \<open>Degenerate input\<close>




























end
